theory Spec2Isabelle
  imports Complex_Main
begin

section \<open>Geometry of smooth paths\<close>

text \<open>
  Scaled coordinates (\<open>coord_t\<close>) are integers, \<open>double\<close> and \<open>float\<close> values are
  modelled as real numbers: every statement below is about the exact arithmetic of the
  program, without the rounding of the machine's floating point numbers. Coordinates
  and the \<open>int64_t\<close> length counter are unbounded integers: their overflow is not
  modelled.
\<close>

type_synonym coord_t = int
type_synonym Point = "coord_t \<times> coord_t"
type_synonym Vec2d = "real \<times> real"

text \<open>
  A vertex of an arc polyline (\<open>Geometry::ArcWelder::Segment\<close>): the end point of the
  segment that leads to it, the radius of that segment (zero for a straight segment)
  and its winding.
\<close>

record Segment =
  point :: Point
  radius :: real
  ccw :: bool

definition linear_seg :: "Segment \<Rightarrow> bool" where
  "linear_seg s = (radius s = 0)"

text \<open>
  An extrusion path, as far as the wipe code reads it: the arc polyline returned by
  \<open>as_polyline().get_arc()\<close> and the \<open>role().is_bridge()\<close> flag. \<open>first_point\<close> and
  \<open>last_point\<close> are read on polylines that are not empty only.
\<close>

record ExtrusionPath =
  polyline :: "Segment list"
  is_bridge :: bool

definition first_point :: "ExtrusionPath \<Rightarrow> Point" where
  "first_point p = point (hd (polyline p))"

definition last_point :: "ExtrusionPath \<Rightarrow> Point" where
  "last_point p = point (last (polyline p))"

text \<open>Vector arithmetic of Eigen on two coordinates.\<close>

definition psub :: "Point \<Rightarrow> Point \<Rightarrow> Point" where
  "psub a b = (fst a - fst b, snd a - snd b)"

definition padd :: "Point \<Rightarrow> Point \<Rightarrow> Point" where
  "padd a b = (fst a + fst b, snd a + snd b)"

definition cast_double :: "Point \<Rightarrow> Vec2d" where
  "cast_double a = (real_of_int (fst a), real_of_int (snd a))"

text \<open>The conversion of a \<open>double\<close> to \<open>coord_t\<close> truncates toward zero.\<close>

definition trunc_coord :: "real \<Rightarrow> coord_t" where
  "trunc_coord r = (if r < 0 then \<lceil>r\<rceil> else \<lfloor>r\<rfloor>)"

definition cast_coord_t :: "Vec2d \<Rightarrow> Point" where
  "cast_coord_t v = (trunc_coord (fst v), trunc_coord (snd v))"

definition vsub :: "Vec2d \<Rightarrow> Vec2d \<Rightarrow> Vec2d" where
  "vsub a b = (fst a - fst b, snd a - snd b)"

definition vadd :: "Vec2d \<Rightarrow> Vec2d \<Rightarrow> Vec2d" where
  "vadd a b = (fst a + fst b, snd a + snd b)"

definition vscale :: "Vec2d \<Rightarrow> real \<Rightarrow> Vec2d" where
  "vscale v k = (fst v * k, snd v * k)"

definition squaredNorm :: "Vec2d \<Rightarrow> real" where
  "squaredNorm v = fst v * fst v + snd v * snd v"

definition norm_v :: "Vec2d \<Rightarrow> real" where
  "norm_v v = sqrt (squaredNorm v)"

definition sqr :: "real \<Rightarrow> real" where
  "sqr x = x * x"

text \<open>
  \<open>normalized()\<close> of Eigen leaves the zero vector as it is, and \<open>Rotation2D\<close> is the
  rotation by an angle about the origin.
\<close>

definition normalized :: "Vec2d \<Rightarrow> Vec2d" where
  "normalized v = (if squaredNorm v > 0 then vscale v (1 / sqrt (squaredNorm v)) else v)"

definition Rotation2D :: "real \<Rightarrow> Vec2d \<Rightarrow> Vec2d" where
  "Rotation2D a v = (cos a * fst v - sin a * snd v, sin a * fst v + cos a * snd v)"

text \<open>
  The primitives of \<open>Geometry::ArcWelder\<close> (\<open>arc_angle\<close>, \<open>arc_center\<close>,
  \<open>estimate_path_length\<close>, \<open>reverse\<close>), \<open>Point::rotated\<close>, \<open>angle_ccw\<close> and the
  unit conversions \<open>scaled\<close> and \<open>unscaled\<close> are declared in other files of the
  library; the functions below take them as parameters. \<open>estimate_path_length\<close> is given a
  real result, and the model writes out the conversion to the \<open>int64_t\<close> counter that
  receives it.
\<close>

record geom_ops =
  arc_angle :: "Vec2d \<Rightarrow> Vec2d \<Rightarrow> real \<Rightarrow> real"
  arc_center :: "Vec2d \<Rightarrow> Vec2d \<Rightarrow> real \<Rightarrow> bool \<Rightarrow> Vec2d"
  rotated :: "Point \<Rightarrow> real \<Rightarrow> Point \<Rightarrow> Point"
  angle_ccw :: "Point \<Rightarrow> Point \<Rightarrow> real"
  estimate_path_length :: "Segment list \<Rightarrow> real"
  reverse_path :: "Segment list \<Rightarrow> Segment list"
  scaled :: "real \<Rightarrow> coord_t"
  unscaled :: "real \<Rightarrow> real"

text \<open>
  Modelled from the spec: \<open>Geometry::ArcWelder::segment_length\<close>, which is declared
  in another file of the library. The length of a segment is the Euclidean distance of its
  end points for a straight segment and \<open>|radius| * angle\<close> for an arc.
\<close>

definition segment_length :: "geom_ops \<Rightarrow> Segment \<Rightarrow> Segment \<Rightarrow> real" where
  "segment_length ops a b =
     (if linear_seg b then norm_v (cast_double (psub (point b) (point a)))
      else arc_angle ops (cast_double (point a)) (cast_double (point b)) (radius b) * \<bar>radius b\<bar>)"

subsection \<open>\<open>longer_than\<close>\<close>

text \<open>
  The inner loop of \<open>longer_than\<close> over the segments of one polyline, \<open>prev\<close> being
  \<open>*std::prev(it)\<close>. \<open>None\<close> is the early \<open>return true\<close>, \<open>Some\<close> carries the
  remaining length to the next path.
\<close>

fun longer_than_segs :: "geom_ops \<Rightarrow> Segment \<Rightarrow> Segment list \<Rightarrow> real \<Rightarrow> real option" where
  "longer_than_segs ops prev [] len = Some len"
| "longer_than_segs ops prev (s # ss) len =
     (let len' = len - segment_length ops prev s
      in if len' < 0 then None else longer_than_segs ops s ss len')"

text \<open>
  The source takes \<open>std::next(begin())\<close> of every polyline, which is undefined on an
  empty one; the model skips such a path, and the theorems assume that no polyline is
  empty.
\<close>

fun longer_than :: "geom_ops \<Rightarrow> ExtrusionPath list \<Rightarrow> real \<Rightarrow> bool" where
  "longer_than ops [] len = (len < 0)"
| "longer_than ops (p # ps) len =
     (case polyline p of
        [] \<Rightarrow> longer_than ops ps len
      | s # ss \<Rightarrow>
          (case longer_than_segs ops s ss len of
             None \<Rightarrow> True
           | Some len' \<Rightarrow> longer_than ops ps len'))"

subsection \<open>Sampling a point at a distance\<close>

text \<open>
  The inner loop of \<open>sample_path_point_at_distance_from_start\<close>: \<open>Inl\<close> is a
  \<open>return\<close> of a point, \<open>Inr\<close> the distance left after the polyline.
\<close>

fun sample_start_segs :: "geom_ops \<Rightarrow> Point \<Rightarrow> Segment list \<Rightarrow> real \<Rightarrow> Point + real" where
  "sample_start_segs ops prev_point [] distance = Inr distance"
| "sample_start_segs ops prev_point (s # ss) distance =
     (let pt = point s in
      if linear_seg s then
        (let v = cast_double (psub pt prev_point);
             lsqr = squaredNorm v
         in if lsqr > sqr distance
            then Inl (padd prev_point (cast_coord_t (vscale v (distance / sqrt lsqr))))
            else (let distance' = distance - sqrt lsqr
                  in if distance' < 0 then Inl pt
                     else sample_start_segs ops pt ss distance'))
      else
        (let angle = arc_angle ops (cast_double prev_point) (cast_double pt) (radius s);
             len = \<bar>radius s\<bar> * angle
         in if len > distance
            then Inl (rotated ops prev_point (- angle * (distance / len))
                       (cast_coord_t (arc_center ops (cast_double prev_point) (cast_double pt)
                                        (radius s) (ccw s))))
            else (let distance' = distance - len
                  in if distance' < 0 then Inl pt
                     else sample_start_segs ops pt ss distance')))"

text \<open>
  The loop over the paths. The source reads \<open>begin()->point\<close> of every polyline, which
  is undefined on an empty one; the model skips such a path.
\<close>

fun sample_start_paths :: "geom_ops \<Rightarrow> ExtrusionPath list \<Rightarrow> real \<Rightarrow> Point option" where
  "sample_start_paths ops [] distance = None"
| "sample_start_paths ops (p # ps) distance =
     (case polyline p of
        [] \<Rightarrow> sample_start_paths ops ps distance
      | s # ss \<Rightarrow>
          (case sample_start_segs ops (point s) ss distance of
             Inl pt \<Rightarrow> Some pt
           | Inr distance' \<Rightarrow> sample_start_paths ops ps distance'))"

definition sample_path_point_at_distance_from_start ::
    "geom_ops \<Rightarrow> ExtrusionPath list \<Rightarrow> real \<Rightarrow> Point option" where
  "sample_path_point_at_distance_from_start ops paths distance =
     (if distance \<ge> 0 then sample_start_paths ops paths distance else None)"

text \<open>
  \<open>sample_path_point_at_distance_from_end\<close> is a second function of the source with
  its own loops; they are translated as they are written there.
\<close>

fun sample_end_segs :: "geom_ops \<Rightarrow> Point \<Rightarrow> Segment list \<Rightarrow> real \<Rightarrow> Point + real" where
  "sample_end_segs ops prev_point [] distance = Inr distance"
| "sample_end_segs ops prev_point (s # ss) distance =
     (let pt = point s in
      if linear_seg s then
        (let v = cast_double (psub pt prev_point);
             lsqr = squaredNorm v
         in if lsqr > sqr distance
            then Inl (padd prev_point (cast_coord_t (vscale v (distance / sqrt lsqr))))
            else (let distance' = distance - sqrt lsqr
                  in if distance' < 0 then Inl pt
                     else sample_end_segs ops pt ss distance'))
      else
        (let angle = arc_angle ops (cast_double prev_point) (cast_double pt) (radius s);
             len = \<bar>radius s\<bar> * angle
         in if len > distance
            then Inl (rotated ops prev_point (- angle * (distance / len))
                       (cast_coord_t (arc_center ops (cast_double prev_point) (cast_double pt)
                                        (radius s) (ccw s))))
            else (let distance' = distance - len
                  in if distance' < 0 then Inl pt
                     else sample_end_segs ops pt ss distance')))"

fun sample_end_paths :: "geom_ops \<Rightarrow> ExtrusionPath list \<Rightarrow> real \<Rightarrow> Point option" where
  "sample_end_paths ops [] distance = None"
| "sample_end_paths ops (p # ps) distance =
     (case polyline p of
        [] \<Rightarrow> sample_end_paths ops ps distance
      | s # ss \<Rightarrow>
          (case sample_end_segs ops (point s) ss distance of
             Inl pt \<Rightarrow> Some pt
           | Inr distance' \<Rightarrow> sample_end_paths ops ps distance'))"

definition sample_path_point_at_distance_from_end ::
    "geom_ops \<Rightarrow> ExtrusionPath list \<Rightarrow> real \<Rightarrow> Point option" where
  "sample_path_point_at_distance_from_end ops paths distance =
     (if distance \<ge> 0 then sample_end_paths ops paths distance else None)"

subsection \<open>\<open>wipe_hide_seam\<close>\<close>

text \<open>
  \<open>paths.back()\<close> and \<open>paths.front()\<close> are asserted to exist and to hold at least two
  vertices; the theorems assume a non-empty sequence of non-empty polylines.
\<close>

definition wipe_hide_seam ::
    "geom_ops \<Rightarrow> ExtrusionPath list \<Rightarrow> bool \<Rightarrow> real \<Rightarrow> Point option" where
  "wipe_hide_seam ops paths is_hole wipe_length =
     (if longer_than ops paths (2.5 * wipe_length) then
        (let p_current = last_point (last paths);
             p_next = first_point (hd paths);
             l = wipe_length - norm_v (cast_double (psub p_next p_current))
         in if l > 0 \<and> sample_path_point_at_distance_from_start ops paths l = None then None
            else (case sample_path_point_at_distance_from_end ops paths wipe_length of
                    None \<Rightarrow> None
                  | Some p_prev \<Rightarrow>
                      (let angle_inside = angle_ccw ops (psub p_next p_current) (psub p_prev p_current);
                           angle_inside' =
                             (if is_hole
                              then (if angle_inside > 0 then angle_inside - 2 * pi else angle_inside)
                              else (if angle_inside < 0 then angle_inside + 2 * pi else angle_inside));
                           v_rotated = Rotation2D angle_inside'
                                         (normalized (cast_double (psub p_next p_current)))
                       in Some (padd p_current (cast_coord_t (vscale v_rotated wipe_length))))))
      else None)"

section \<open>The wipe state\<close>

record Wipe =
  m_enabled :: bool
  m_wipe_len_max :: real
  m_path :: "Segment list"
  m_offset :: Point

text \<open>
  Modelled from the spec: the inline members \<open>reset_path\<close>, \<open>enable\<close>, \<open>disable\<close>,
  \<open>is_enabled\<close> and \<open>has_path\<close> of the class, which are declared in its header
  \<open>Wipe.hpp\<close>. \<open>reset_path\<close> clears the cached path, \<open>enable\<close> stores the
  budget and sets the flag, \<open>disable\<close> clears the flag.
\<close>

definition reset_path :: "Wipe \<Rightarrow> Wipe" where
  "reset_path w = w\<lparr>m_path := []\<rparr>"

definition enable :: "real \<Rightarrow> Wipe \<Rightarrow> Wipe" where
  "enable wipe_len_max w = w\<lparr>m_enabled := True, m_wipe_len_max := wipe_len_max\<rparr>"

definition disable :: "Wipe \<Rightarrow> Wipe" where
  "disable w = w\<lparr>m_enabled := False\<rparr>"

definition is_enabled :: "Wipe \<Rightarrow> bool" where
  "is_enabled w = m_enabled w"

definition has_path :: "Wipe \<Rightarrow> bool" where
  "has_path w = (m_path w \<noteq> [])"

subsection \<open>\<open>Wipe::init\<close>\<close>

text \<open>
  What \<open>init\<close> reads of the configuration and of the writer, for an extruder
  identifier: \<open>config.wipe.get_at(id)\<close>, \<open>calc_xy_to_e_ratio(writer, id)\<close>,
  \<open>retract_length.get_at(id)\<close> and \<open>retract_length_toolchange.get_at(id)\<close>.
\<close>

record init_config =
  wipe_at :: "nat \<Rightarrow> bool"
  xy_to_e_at :: "nat \<Rightarrow> real"
  retract_length_at :: "nat \<Rightarrow> real"
  retract_length_toolchange_at :: "nat \<Rightarrow> real"

fun init_loop :: "init_config \<Rightarrow> bool \<Rightarrow> nat list \<Rightarrow> real \<Rightarrow> real" where
  "init_loop config multimaterial [] wipe_xy = wipe_xy"
| "init_loop config multimaterial (eid # ids) wipe_xy =
     (if wipe_at config eid then
        (let xy_to_e = xy_to_e_at config eid;
             wipe_xy1 = max wipe_xy (retract_length_at config eid / xy_to_e);
             wipe_xy2 = (if multimaterial
                         then max wipe_xy1 (retract_length_toolchange_at config eid / xy_to_e)
                         else wipe_xy1)
         in init_loop config multimaterial ids wipe_xy2)
      else init_loop config multimaterial ids wipe_xy)"

definition init :: "init_config \<Rightarrow> nat list \<Rightarrow> Wipe \<Rightarrow> Wipe" where
  "init config extruders w =
     (let w1 = reset_path w;
          multimaterial = (length extruders > 1);
          wipe_xy = init_loop config multimaterial extruders 0
      in if wipe_xy = 0 then disable w1 else enable wipe_xy w1)"

subsection \<open>\<open>Wipe::set_path\<close>\<close>

text \<open>
  The loop of the branch that is not reversed, from \<open>std::next(paths.begin())\<close> on:
  \<open>len\<close> is the running estimate, \<open>mp\<close> the path accumulated so far.
\<close>

fun set_path_forward :: "geom_ops \<Rightarrow> coord_t \<Rightarrow> int \<Rightarrow> Segment list \<Rightarrow> ExtrusionPath list \<Rightarrow> Segment list" where
  "set_path_forward ops wipe_len_max_scaled len mp [] = mp"
| "set_path_forward ops wipe_len_max_scaled len mp (it # rest) =
     (if \<not> len < wipe_len_max_scaled then mp
      else if is_bridge it then mp
      else if point (last mp) \<noteq> first_point it then mp
      else set_path_forward ops wipe_len_max_scaled
             (trunc_coord (real_of_int len + estimate_path_length ops (polyline it)))
             (mp @ tl (polyline it)) rest)"

text \<open>The loop of the reversed branch, over the paths from the last but one backwards.\<close>

fun set_path_reversed :: "geom_ops \<Rightarrow> coord_t \<Rightarrow> int \<Rightarrow> Segment list \<Rightarrow> ExtrusionPath list \<Rightarrow> Segment list" where
  "set_path_reversed ops wipe_len_max_scaled len mp [] = mp"
| "set_path_reversed ops wipe_len_max_scaled len mp (it # rest) =
     (if \<not> len < wipe_len_max_scaled then mp
      else if is_bridge it then mp
      else if point (last mp) \<noteq> last_point it then mp
      else set_path_reversed ops wipe_len_max_scaled
             (trunc_coord (real_of_int len + estimate_path_length ops (polyline it)))
             (mp @ tl (rev (polyline it))) rest)"

definition set_path :: "geom_ops \<Rightarrow> ExtrusionPath list \<Rightarrow> bool \<Rightarrow> Wipe \<Rightarrow> Wipe" where
  "set_path ops paths reversed w =
     (let w1 = reset_path w in
      if is_enabled w1 \<and> paths \<noteq> [] then
        (let wipe_len_max_scaled = scaled ops (m_wipe_len_max w1) in
         if reversed then
           (let mp = reverse_path ops (polyline (last paths));
                len = trunc_coord (estimate_path_length ops mp)
            in w1\<lparr>m_path := set_path_reversed ops wipe_len_max_scaled len mp (tl (rev paths))\<rparr>)
         else
           (let mp = polyline (hd paths);
                len = trunc_coord (estimate_path_length ops mp)
            in w1\<lparr>m_path := set_path_forward ops wipe_len_max_scaled len mp (tl paths)\<rparr>))
      else w1)"

subsection \<open>\<open>Wipe::calc_wipe_speed\<close> and \<open>Wipe::wipe\<close>\<close>

type_synonym Vec3d = "real \<times> real \<times> real"

text \<open>
  The G-code generator and its writer are collaborators of the wipe code. Their state is
  a type parameter \<open>'g\<close>; what \<open>wipe\<close> reads of it and the operations it calls are the
  fields of a record. An operation that changes the generator or the writer returns the
  new state, and one that produces text returns the text with it.
  \<^item> \<open>tool_id\<close>, \<open>tool_retract_length\<close>, \<open>tool_retract_length_toolchange\<close> and
    \<open>tool_retract_to_go\<close> are the members of \<open>*writer().tool()\<close>;
  \<^item> \<open>print_retract_length\<close> is \<open>None\<close> when \<open>print_region_config()\<close> is null;
  \<^item> \<open>quantize\<close> and \<open>quantize_e\<close> are those of \<open>get_default_gcode_formatter()\<close>;
  \<^item> \<open>travel_speed\<close> is \<open>get_computed_value("travel_speed")\<close>;
  \<^item> \<open>tag_wipe_start\<close> and \<open>tag_wipe_end\<close> are the reserved tags of \<open>GCodeProcessor\<close>;
  \<^item> \<open>EPSILON\<close> is the constant of that name.
\<close>

record 'g gen_ops =
  tool_is_extruder :: "'g \<Rightarrow> bool"
  tool_id :: "'g \<Rightarrow> int"
  tool_retract_length :: "'g \<Rightarrow> real"
  tool_retract_length_toolchange :: "'g \<Rightarrow> real"
  tool_retract_to_go :: "'g \<Rightarrow> real \<Rightarrow> real"
  use_firmware_retraction :: "'g \<Rightarrow> bool"
  print_retract_length :: "'g \<Rightarrow> real option"
  nozzle_diameter_at :: "'g \<Rightarrow> int \<Rightarrow> real"
  wipe_lift_abs_value :: "'g \<Rightarrow> int \<Rightarrow> real \<Rightarrow> real"
  calc_xy_to_e_ratio :: "'g \<Rightarrow> int \<Rightarrow> real"
  get_position :: "'g \<Rightarrow> Vec3d"
  quantize :: "'g \<Rightarrow> Vec2d \<Rightarrow> Vec2d"
  quantize_e :: "'g \<Rightarrow> real \<Rightarrow> real"
  gcode_precision_xyz :: "'g \<Rightarrow> int"
  resolution :: "'g \<Rightarrow> real"
  gcode_comments :: "'g \<Rightarrow> bool"
  enable_cooling_markers :: "'g \<Rightarrow> bool"
  travel_speed :: "'g \<Rightarrow> real"
  wipe_speed_at :: "'g \<Rightarrow> int \<Rightarrow> real"
  point_to_gcode :: "'g \<Rightarrow> Point \<Rightarrow> Vec2d"
  point_to_gcode_quantized :: "'g \<Rightarrow> Point \<Rightarrow> Vec2d"
  gcode_to_point :: "'g \<Rightarrow> Vec2d \<Rightarrow> Point"
  last_pos :: "'g \<Rightarrow> Point"
  set_last_pos :: "Point \<Rightarrow> 'g \<Rightarrow> 'g"
  add_de_delayed :: "real \<Rightarrow> 'g \<Rightarrow> 'g"
  set_lift :: "real \<Rightarrow> 'g \<Rightarrow> 'g"
  extrude_to_xy :: "Vec2d \<Rightarrow> real \<Rightarrow> string \<Rightarrow> 'g \<Rightarrow> string \<times> 'g"
  extrude_to_xyz :: "Vec3d \<Rightarrow> real \<Rightarrow> string \<Rightarrow> 'g \<Rightarrow> string \<times> 'g"
  extrude_arc_to_xy :: "Vec2d \<Rightarrow> Vec2d \<Rightarrow> bool \<Rightarrow> real \<Rightarrow> string \<Rightarrow> 'g \<Rightarrow> string \<times> 'g"
  extrude_arc_to_xyz :: "Vec3d \<Rightarrow> Vec2d \<Rightarrow> bool \<Rightarrow> real \<Rightarrow> string \<Rightarrow> 'g \<Rightarrow> string \<times> 'g"
  set_speed_mm_s :: "real \<Rightarrow> string \<Rightarrow> string \<Rightarrow> 'g \<Rightarrow> string \<times> 'g"
  tag_wipe_start :: string
  tag_wipe_end :: string
  EPSILON :: real

definition calc_wipe_speed :: "'g gen_ops \<Rightarrow> 'g \<Rightarrow> real \<times> bool" where
  "calc_wipe_speed ops g =
     (if tool_is_extruder ops g \<and> wipe_speed_at ops g (tool_id ops g) > 0
      then (wipe_speed_at ops g (tool_id ops g), True)
      else (travel_speed ops g * 0.8, False))"

definition wipe_retract_comment :: string where
  "wipe_retract_comment = ''wipe and retract''"

text \<open>
  The variables that the two closures of \<open>wipe\<close> capture by reference: the text
  produced so far, the generator, the remaining retraction length and the current
  height. \<open>emitted\<close> is a history variable that the source does not have: it records the
  \<open>dE\<close> of every move handed to the writer, in order.
\<close>

record 'g walk_state =
  gcode :: string
  gen :: "'g"
  retract_length :: real
  current_z :: real
  emitted :: "real list"

text \<open>
  The values that the closures capture by copy.
\<close>

record walk_consts =
  xy_to_e :: real
  use_firmware_retract :: bool
  lift_per_mm :: real
  final_z :: real

text \<open>
  The end of \<open>wipe_linear\<close>, from the assignment \<open>p = p_quantized\<close> on: the move is
  handed to the writer and the retraction length is decreased by \<open>dE\<close>. The result is
  the returned flag, the new value of the reference \<open>p\<close> and the new state.
\<close>

definition linear_move ::
    "'g gen_ops \<Rightarrow> walk_consts \<Rightarrow> Vec2d \<Rightarrow> real \<Rightarrow> real \<Rightarrow> bool \<Rightarrow> 'g walk_state
      \<Rightarrow> bool \<times> Vec2d \<times> 'g walk_state" where
  "linear_move ops c p segment_len dE done st =
     (if lift_per_mm c = 0 then
        (let (txt, g') = extrude_to_xy ops p (if use_firmware_retract c then 0 else - dE)
                           wipe_retract_comment (gen st)
         in (done, p, st\<lparr>gcode := gcode st @ txt, gen := g',
                            retract_length := retract_length st - dE,
                            emitted := emitted st @ [dE]\<rparr>))
      else
        (let z = min (final_z c) (current_z st + segment_len * lift_per_mm c);
             (txt, g') = extrude_to_xyz ops (fst p, snd p, z)
                           (if use_firmware_retract c then 0 else - dE)
                           wipe_retract_comment (gen st)
         in (done, p, st\<lparr>gcode := gcode st @ txt, gen := g',
                            retract_length := retract_length st - dE,
                            current_z := z,
                            emitted := emitted st @ [dE]\<rparr>)))"

definition wipe_linear ::
    "'g gen_ops \<Rightarrow> walk_consts \<Rightarrow> Vec2d \<Rightarrow> Vec2d \<Rightarrow> 'g walk_state
      \<Rightarrow> bool \<times> Vec2d \<times> 'g walk_state" where
  "wipe_linear ops c prev_quantized p st =
     (let p_quantized = quantize ops (gen st) p in
      if p_quantized = prev_quantized then (False, prev_quantized, st)
      else
        (let segment_len = norm_v (vsub p_quantized prev_quantized);
             precision0 = 10 powi (- gcode_precision_xyz ops (gen st)) * 1.5;
             precision1 = max precision0 (EPSILON ops * 10);
             precision = (if resolution ops (gen st) > 0
                          then max precision1 (resolution ops (gen st)) else precision1)
         in if segment_len < precision then (False, prev_quantized, st)
            else
              (let dE = quantize_e ops (gen st) (xy_to_e c * segment_len) in
               if dE > retract_length st - EPSILON ops then
                 (if dE > retract_length st + EPSILON ops then
                    (let p_short = quantize ops (gen st)
                           (vadd prev_quantized
                              (vscale (vsub p prev_quantized) (retract_length st / dE)))
                     in if p_short = prev_quantized then
                          (True, p_short,
                           (if \<not> use_firmware_retract c
                            then st\<lparr>gen := add_de_delayed ops (retract_length st) (gen st)\<rparr>
                            else st))
                        else linear_move ops c p_short segment_len (retract_length st) True st)
                  else linear_move ops c p_quantized segment_len (retract_length st) True st)
               else linear_move ops c p_quantized segment_len dE False st)))"

text \<open>
  The end of \<open>wipe_arc\<close>, once the offset \<open>ij\<close> of the centre is known not to be zero.
\<close>

definition arc_move ::
    "'g gen_ops \<Rightarrow> walk_consts \<Rightarrow> Vec2d \<Rightarrow> Vec2d \<Rightarrow> bool \<Rightarrow> real \<Rightarrow> real \<Rightarrow> bool
      \<Rightarrow> 'g walk_state \<Rightarrow> bool \<times> Vec2d \<times> 'g walk_state" where
  "arc_move ops c p ij is_ccw segment_len dE done st =
     (if lift_per_mm c = 0 then
        (let (txt, g') = extrude_arc_to_xy ops p ij is_ccw
                           (if use_firmware_retract c then 0 else - dE)
                           wipe_retract_comment (gen st)
         in (done, p, st\<lparr>gcode := gcode st @ txt, gen := g',
                            retract_length := retract_length st - dE,
                            emitted := emitted st @ [dE]\<rparr>))
      else
        (let z = min (final_z c) (current_z st + segment_len * lift_per_mm c);
             (txt, g') = extrude_arc_to_xyz ops (fst p, snd p, z) ij is_ccw
                           (if use_firmware_retract c then 0 else - dE)
                           wipe_retract_comment (gen st)
         in (done, p, st\<lparr>gcode := gcode st @ txt, gen := g',
                            retract_length := retract_length st - dE,
                            current_z := z,
                            emitted := emitted st @ [dE]\<rparr>)))"

definition wipe_arc ::
    "'g gen_ops \<Rightarrow> geom_ops \<Rightarrow> walk_consts \<Rightarrow> Vec2d \<Rightarrow> Vec2d \<Rightarrow> real \<Rightarrow> bool
      \<Rightarrow> 'g walk_state \<Rightarrow> bool \<times> Vec2d \<times> 'g walk_state" where
  "wipe_arc ops gops c prev_quantized p radius_in is_ccw st =
     (let p_quantized = quantize ops (gen st) p in
      if p_quantized = prev_quantized then (False, prev_quantized, st)
      else if radius_in = 0 then wipe_linear ops c prev_quantized p st
      else
        (let center = arc_center gops prev_quantized p_quantized radius_in is_ccw;
             angle = arc_angle gops prev_quantized p_quantized radius_in;
             segment_len = angle * \<bar>radius_in\<bar>;
             dE = quantize_e ops (gen st) (xy_to_e c * segment_len);
             (center', segment_len', p_quantized', dE', done) =
               (if dE > retract_length st - EPSILON ops then
                  (if dE > retract_length st + EPSILON ops then
                     (let center2 = arc_center gops prev_quantized p radius_in is_ccw;
                          angle2 = arc_angle gops prev_quantized p radius_in;
                          segment_len2 = angle2 * \<bar>radius_in\<bar>;
                          dE2 = xy_to_e c * segment_len2;
                          p_short = quantize ops (gen st)
                            (vadd center2
                               (Rotation2D ((if is_ccw then angle2 else - angle2)
                                              * (retract_length st / dE2))
                                  (vsub prev_quantized center2)))
                      in (center2, segment_len2, p_short, retract_length st, True))
                   else (center, segment_len, p_quantized, retract_length st, True))
                else (center, segment_len, p_quantized, dE, False));
             ij = quantize ops (gen st) (vsub center' prev_quantized)
         in if ij = (0, 0) then wipe_linear ops c prev_quantized p st
            else arc_move ops c p_quantized' ij is_ccw segment_len' dE' done st))"

text \<open>
  The loop of \<open>wipe\<close> over the cached path. It returns the last value of \<open>p\<close> and the
  state; \<open>p\<close> is not initialised before the first iteration, and the loop is entered
  only on a path that is not empty.
\<close>

fun wipe_walk ::
    "'g gen_ops \<Rightarrow> geom_ops \<Rightarrow> walk_consts \<Rightarrow> Point \<Rightarrow> Vec2d \<Rightarrow> Vec2d \<Rightarrow> Segment list
      \<Rightarrow> 'g walk_state \<Rightarrow> Vec2d \<times> 'g walk_state" where
  "wipe_walk ops gops c offset prev p [] st = (p, st)"
| "wipe_walk ops gops c offset prev p (it # rest) st =
     (let p0 = point_to_gcode ops (gen st) (padd (point it) offset);
          (done, p1, st1) =
            (if linear_seg it then wipe_linear ops c prev p0 st
             else wipe_arc ops gops c prev p0 (unscaled gops (radius it)) (ccw it) st)
      in if done then (p1, st1)
         else wipe_walk ops gops c offset p1 p1 rest st1)"

text \<open>
  The block of \<open>wipe\<close> that is run when the retraction to go is positive and a path is
  cached: from the reading of the nozzle diameter to the call of \<open>set_lift\<close>.
\<close>

definition wipe_moves ::
    "'g gen_ops \<Rightarrow> geom_ops \<Rightarrow> Wipe \<Rightarrow> 'g \<Rightarrow> real \<Rightarrow> 'g walk_state" where
  "wipe_moves ops gops w g retract_len =
     (let eid = tool_id ops g;
          nozzle_diameter = (if eid < 0 then 0.4 else nozzle_diameter_at ops g eid);
          lift = (if eid < 0 then 0 else wipe_lift_abs_value ops g eid nozzle_diameter);
          ratio = calc_xy_to_e_ratio ops g eid;
          per_mm = ratio * lift / retract_len;
          initial_z = snd (snd (get_position ops g));
          c = \<lparr>xy_to_e = ratio, use_firmware_retract = use_firmware_retraction ops g,
               lift_per_mm = per_mm, final_z = snd (snd (get_position ops g)) + lift\<rparr>;
          prev = point_to_gcode_quantized ops g (last_pos ops g);
          st0 = \<lparr>gcode = [], gen = g, retract_length = retract_len, current_z = initial_z,
                 emitted = []\<rparr>;
          (p, st) = wipe_walk ops gops c (m_offset w) prev prev (m_path w) st0;
          g1 = set_last_pos ops (gcode_to_point ops (gen st) p) (gen st);
          g2 = (if per_mm \<noteq> 0
                then set_lift ops (snd (snd (get_position ops g1)) - initial_z) g1 else g1)
      in st\<lparr>gen := g2\<rparr>)"

text \<open>
  \<open>wipe\<close> returns the text; the model returns with it the wipe state and the generator
  as the call leaves them.
\<close>

definition wipe ::
    "'g gen_ops \<Rightarrow> geom_ops \<Rightarrow> Wipe \<Rightarrow> 'g \<Rightarrow> bool \<Rightarrow> string \<times> Wipe \<times> 'g" where
  "wipe ops gops w g toolchange =
     (if \<not> tool_is_extruder ops g then ([], w, g)
      else
        (let target =
               (if toolchange then tool_retract_length_toolchange ops g
                else (case print_retract_length ops g of
                        Some v \<Rightarrow> if v \<ge> 0 then v else tool_retract_length ops g
                      | None \<Rightarrow> tool_retract_length ops g));
             retract_len = tool_retract_to_go ops g target;
             st = (if retract_len > 0 \<and> has_path w
                   then wipe_moves ops gops w g retract_len
                   else \<lparr>gcode = [], gen = g, retract_length = retract_len,
                          current_z = 0, emitted = []\<rparr>);
             w' = reset_path w
         in if gcode st \<noteq> [] then
              (let wipe_speed = calc_wipe_speed ops (gen st);
                   (speed_txt, g') = set_speed_mm_s ops (fst wipe_speed)
                      (if gcode_comments ops (gen st)
                       then (if snd wipe_speed then ''wipe_speed'' else ''travel_speed * 0.8'')
                       else [])
                      (if enable_cooling_markers ops (gen st) then '';_WIPE'' else [])
                      (gen st)
               in ('';'' @ tag_wipe_start ops @ [CHR 0x0A] @ speed_txt @ gcode st
                     @ '';'' @ tag_wipe_end ops @ [CHR 0x0A], w', g'))
            else (gcode st, w', gen st)))"

section \<open>Notions of the specification\<close>

text \<open>
  The true length of a polyline, of a path and of a sequence of paths: the sum of the
  lengths of the segments.
\<close>

fun polyline_length :: "geom_ops \<Rightarrow> Segment \<Rightarrow> Segment list \<Rightarrow> real" where
  "polyline_length ops prev [] = 0"
| "polyline_length ops prev (s # ss) = segment_length ops prev s + polyline_length ops s ss"

definition path_length :: "geom_ops \<Rightarrow> ExtrusionPath \<Rightarrow> real" where
  "path_length ops p = (case polyline p of [] \<Rightarrow> 0 | s # ss \<Rightarrow> polyline_length ops s ss)"

definition total_length :: "geom_ops \<Rightarrow> ExtrusionPath list \<Rightarrow> real" where
  "total_length ops paths = sum_list (map (path_length ops) paths)"

text \<open>The angle of an arc is never negative.\<close>

definition arcs_nonneg :: "geom_ops \<Rightarrow> bool" where
  "arcs_nonneg ops = (\<forall>a b r. 0 \<le> arc_angle ops a b r)"

text \<open>Every path holds at least one vertex, so that the source reads no empty vector.\<close>

definition nonempty_polylines :: "ExtrusionPath list \<Rightarrow> bool" where
  "nonempty_polylines paths = list_all (\<lambda>p. polyline p \<noteq> []) paths"

text \<open>
  The running estimate of \<open>set_path\<close> after the candidates \<open>ps\<close> have been appended,
  starting from \<open>len\<close>.
\<close>

definition running_estimate :: "geom_ops \<Rightarrow> int \<Rightarrow> ExtrusionPath list \<Rightarrow> int" where
  "running_estimate ops len ps =
     foldl (\<lambda>l p. trunc_coord (real_of_int l + estimate_path_length ops (polyline p))) len ps"

text \<open>
  The parts of \<open>set_path\<close>, for either direction: the polyline it starts from, the
  candidate paths it walks afterwards, the vertices a candidate contributes and the end
  point of a candidate that has to coincide with the end of the accumulated path.
  \<open>accumulated k\<close> is the cached path once \<open>k\<close> candidates have been appended.
\<close>

definition first_piece :: "geom_ops \<Rightarrow> bool \<Rightarrow> ExtrusionPath list \<Rightarrow> Segment list" where
  "first_piece ops reversed paths =
     (if reversed then reverse_path ops (polyline (last paths)) else polyline (hd paths))"

definition later_paths :: "bool \<Rightarrow> ExtrusionPath list \<Rightarrow> ExtrusionPath list" where
  "later_paths reversed paths = (if reversed then tl (rev paths) else tl paths)"

definition piece :: "bool \<Rightarrow> ExtrusionPath \<Rightarrow> Segment list" where
  "piece reversed p = (if reversed then tl (rev (polyline p)) else tl (polyline p))"

definition adjoining_point :: "bool \<Rightarrow> ExtrusionPath \<Rightarrow> Point" where
  "adjoining_point reversed p = (if reversed then last_point p else first_point p)"

definition accumulated :: "bool \<Rightarrow> Segment list \<Rightarrow> ExtrusionPath list \<Rightarrow> nat \<Rightarrow> Segment list" where
  "accumulated reversed mp cands k = mp @ concat (map (piece reversed) (take k cands))"

text \<open>
  The candidate of index \<open>j\<close> is accepted: the running estimate before it is below the
  scaled budget, it is no bridge, and its adjoining point is the end of the accumulated
  path.
\<close>

definition accepted :: "geom_ops \<Rightarrow> bool \<Rightarrow> coord_t \<Rightarrow> int \<Rightarrow> Segment list \<Rightarrow> ExtrusionPath list \<Rightarrow> nat \<Rightarrow> bool" where
  "accepted ops reversed mx len mp cands j =
     (running_estimate ops len (take j cands) < mx
      \<and> \<not> is_bridge (cands ! j)
      \<and> point (last (accumulated reversed mp cands j)) = adjoining_point reversed (cands ! j))"

text \<open>The length of the cached path.\<close>

definition cached_length :: "geom_ops \<Rightarrow> Wipe \<Rightarrow> real" where
  "cached_length ops w = (case m_path w of [] \<Rightarrow> 0 | s # ss \<Rightarrow> polyline_length ops s ss)"

text \<open>
  The candidate wipe lengths of \<open>init\<close>: for every extruder that has the wipe enabled,
  \<open>retract_length / xy_to_e\<close> and, when more than one extruder is active,
  \<open>retract_length_toolchange / xy_to_e\<close>. The wipe budget is their maximum, taken from
  zero upwards: it is zero when there is no candidate.
\<close>

definition extruder_candidates :: "init_config \<Rightarrow> bool \<Rightarrow> nat \<Rightarrow> real list" where
  "extruder_candidates config multimaterial eid =
     (if wipe_at config eid then
        (retract_length_at config eid / xy_to_e_at config eid) #
        (if multimaterial
         then [retract_length_toolchange_at config eid / xy_to_e_at config eid] else [])
      else [])"

definition wipe_candidates :: "init_config \<Rightarrow> nat list \<Rightarrow> real list" where
  "wipe_candidates config extruders =
     concat (map (extruder_candidates config (length extruders > 1)) extruders)"

definition wipe_budget :: "init_config \<Rightarrow> nat list \<Rightarrow> real" where
  "wipe_budget config extruders = Max (set (0 # wipe_candidates config extruders))"

text \<open>The ratio \<open>xy_to_e\<close> of every extruder that has the wipe enabled is not zero.\<close>

definition ratios_nonzero :: "init_config \<Rightarrow> nat list \<Rightarrow> bool" where
  "ratios_nonzero config extruders =
     list_all (\<lambda>eid. wipe_at config eid \<longrightarrow> xy_to_e_at config eid \<noteq> 0) extruders"

text \<open>
  The retraction lengths that remain after each of the moves of a walk, from the length
  \<open>r\<close> to go at its start and the \<open>dE\<close> of the moves.
\<close>

fun remaining :: "real \<Rightarrow> real list \<Rightarrow> real list" where
  "remaining r [] = []"
| "remaining r (dE # es) = (r - dE) # remaining (r - dE) es"

text \<open>
  What the walk needs of its collaborators for the retraction length never to grow:
  \<open>quantize_e\<close> returns no negative value on a value that is not negative, the ratio
  \<open>xy_to_e\<close> of the tool is not negative, and no arc angle is negative.
\<close>

definition quantize_e_nonneg :: "'g gen_ops \<Rightarrow> bool" where
  "quantize_e_nonneg ops = (\<forall>g x. 0 \<le> x \<longrightarrow> 0 \<le> quantize_e ops g x)"

definition sane_extrusion :: "'g gen_ops \<Rightarrow> geom_ops \<Rightarrow> 'g \<Rightarrow> bool" where
  "sane_extrusion ops gops g =
     (quantize_e_nonneg ops \<and> 0 \<le> calc_xy_to_e_ratio ops g (tool_id ops g) \<and> arcs_nonneg gops)"

text \<open>
  The effect of one call of \<open>wipe_linear\<close> or \<open>wipe_arc\<close> on the retraction length: no
  move and the same length, or one move whose \<open>dE\<close> is taken from the length and is
  either the whole length or at most the length minus \<open>eps\<close>; \<open>nn\<close> tells whether a
  \<open>dE\<close> below the whole length is known not to be negative.
\<close>

definition step_effect :: "real \<Rightarrow> bool \<Rightarrow> 'g walk_state \<Rightarrow> 'g walk_state \<Rightarrow> bool" where
  "step_effect eps nn st st' =
     ((emitted st' = emitted st \<and> retract_length st' = retract_length st)
      \<or> (\<exists>dE. emitted st' = emitted st @ [dE]
               \<and> retract_length st' = retract_length st - dE
               \<and> (dE = retract_length st
                    \<or> (dE \<le> retract_length st - eps \<and> (nn \<longrightarrow> 0 \<le> dE)))))"

text \<open>
  The invariant of the walk, for a retraction length \<open>r0\<close> to go at its start: the
  remaining length is \<open>r0\<close> minus the \<open>dE\<close> of the moves so far, it is not negative and
  was not negative after any move, and no \<open>dE\<close> was negative when \<open>nn\<close> holds.
\<close>

definition budget_inv :: "real \<Rightarrow> bool \<Rightarrow> 'g walk_state \<Rightarrow> bool" where
  "budget_inv r0 nn st =
     (retract_length st = r0 - sum_list (emitted st)
      \<and> 0 \<le> retract_length st
      \<and> list_all (\<lambda>b. 0 \<le> b) (remaining r0 (emitted st))
      \<and> (nn \<longrightarrow> list_all (\<lambda>dE. 0 \<le> dE) (emitted st)))"

section \<open>Instances of the parameters\<close>

text \<open>
  An instance of the geometric parameters for polylines of straight segments, on which
  the arc primitives are never called: the estimate of a path is the sum of the larger
  coordinate differences of its segments, reversing a path reverses its vertices, and one
  millimetre is a million units. \<open>angle_ccw\<close> is zero, its value when the first vector
  is the zero vector, the only case it is applied to below.
\<close>

fun estimate_straight :: "Segment list \<Rightarrow> int" where
  "estimate_straight (a # b # rest) =
     max \<bar>fst (point b) - fst (point a)\<bar> \<bar>snd (point b) - snd (point a)\<bar>
       + estimate_straight (b # rest)"
| "estimate_straight [a] = 0"
| "estimate_straight [] = 0"

definition straight_ops :: geom_ops where
  "straight_ops =
     \<lparr>arc_angle = (\<lambda>a b r. 0),
      arc_center = (\<lambda>a b r c. (0, 0)),
      rotated = (\<lambda>p a c. p),
      angle_ccw = (\<lambda>v w. 0),
      estimate_path_length = (\<lambda>ss. real_of_int (estimate_straight ss)),
      reverse_path = rev,
      scaled = (\<lambda>x. trunc_coord (x * 1000000)),
      unscaled = (\<lambda>x. x / 1000000)\<rparr>"

definition seg :: "coord_t \<Rightarrow> coord_t \<Rightarrow> Segment" where
  "seg x y = \<lparr>point = (x, y), radius = 0, ccw = True\<rparr>"

definition extrusion :: "Segment list \<Rightarrow> ExtrusionPath" where
  "extrusion ss = \<lparr>polyline = ss, is_bridge = False\<rparr>"

definition bridge :: "Segment list \<Rightarrow> ExtrusionPath" where
  "bridge ss = \<lparr>polyline = ss, is_bridge = True\<rparr>"

text \<open>A closed square loop, three sides of a larger square and a straight open path.\<close>

definition square_loop :: "ExtrusionPath list" where
  "square_loop = [extrusion [seg 0 0, seg 10 0, seg 10 10, seg 0 10, seg 0 0]]"

definition open_loop :: "ExtrusionPath list" where
  "open_loop = [extrusion [seg 0 0, seg 100 0, seg 100 100, seg 0 100]]"

definition straight_path :: "ExtrusionPath list" where
  "straight_path = [extrusion [seg 0 0, seg 100 0]]"

text \<open>
  A configuration of two extruders with the wipe enabled, and one with the wipe disabled
  on every extruder.
\<close>

definition two_extruders :: init_config where
  "two_extruders =
     \<lparr>wipe_at = (\<lambda>eid. True),
      xy_to_e_at = (\<lambda>eid. 2),
      retract_length_at = (\<lambda>eid. if eid = 0 then 2 else 4),
      retract_length_toolchange_at = (\<lambda>eid. 10)\<rparr>"

definition no_wipe :: init_config where
  "no_wipe = two_extruders\<lparr>wipe_at := (\<lambda>eid. False)\<rparr>"

definition fresh_wipe :: Wipe where
  "fresh_wipe = \<lparr>m_enabled = False, m_wipe_len_max = 0, m_path = [], m_offset = (0, 0)\<rparr>"

text \<open>An enabled wipe state with a budget of a hundred-thousandth of a millimetre.\<close>

definition small_budget :: Wipe where
  "small_budget = \<lparr>m_enabled = True, m_wipe_len_max = 1 / 100000, m_path = [], m_offset = (0, 0)\<rparr>"

text \<open>
  An enabled wipe state with a budget of fifteen units, one with a budget of a
  millimetre, three sides of a square as three paths, and the same with a bridge as the
  third path.
\<close>

definition budget_15 :: Wipe where
  "budget_15 = \<lparr>m_enabled = True, m_wipe_len_max = 15 / 1000000, m_path = [], m_offset = (0, 0)\<rparr>"

definition budget_1mm :: Wipe where
  "budget_1mm = \<lparr>m_enabled = True, m_wipe_len_max = 1, m_path = [], m_offset = (0, 0)\<rparr>"

definition three_sides :: "ExtrusionPath list" where
  "three_sides =
     [extrusion [seg 0 0, seg 10 0], extrusion [seg 10 0, seg 10 10],
      extrusion [seg 10 10, seg 0 10]]"

definition bridged_sides :: "ExtrusionPath list" where
  "bridged_sides =
     [extrusion [seg 0 0, seg 10 0], extrusion [seg 10 0, seg 10 10],
      bridge [seg 10 10, seg 0 10]]"

text \<open>
  An instance of the generator: a writer that keeps the position, the retracted length,
  the delayed extrusion and the lift, with one tool, coordinates quantized to a
  thousandth and extrusion to a hundred-thousandth of a millimetre, a ratio \<open>xy_to_e\<close>
  of one, a retraction length of 2 and no lift.
\<close>

record demo_gen =
  is_extruder :: bool
  position :: Vec3d
  cur_pos :: Point
  retracted :: real
  de_delayed :: real
  lift_z :: real

definition round_to :: "real \<Rightarrow> real \<Rightarrow> real" where
  "round_to n x = real_of_int \<lfloor>x * n + 1 / 2\<rfloor> / n"

definition demo_move :: "real \<Rightarrow> real \<Rightarrow> real \<Rightarrow> demo_gen \<Rightarrow> string \<times> demo_gen" where
  "demo_move x y e g =
     (''G1 '', g\<lparr>position := (x, y, snd (snd (position g))), retracted := retracted g - e\<rparr>)"

definition demo_ops :: "demo_gen gen_ops" where
  "demo_ops =
     \<lparr>tool_is_extruder = is_extruder,
      tool_id = (\<lambda>g. 0),
      tool_retract_length = (\<lambda>g. 2),
      tool_retract_length_toolchange = (\<lambda>g. 10),
      tool_retract_to_go = (\<lambda>g len. max 0 (len - retracted g)),
      use_firmware_retraction = (\<lambda>g. False),
      print_retract_length = (\<lambda>g. None),
      nozzle_diameter_at = (\<lambda>g eid. 2 / 5),
      wipe_lift_abs_value = (\<lambda>g eid d. 0),
      calc_xy_to_e_ratio = (\<lambda>g eid. 1),
      get_position = position,
      quantize = (\<lambda>g v. (round_to 1000 (fst v), round_to 1000 (snd v))),
      quantize_e = (\<lambda>g e. round_to 100000 e),
      gcode_precision_xyz = (\<lambda>g. 3),
      resolution = (\<lambda>g. 0),
      gcode_comments = (\<lambda>g. False),
      enable_cooling_markers = (\<lambda>g. False),
      travel_speed = (\<lambda>g. 100),
      wipe_speed_at = (\<lambda>g eid. 0),
      point_to_gcode = (\<lambda>g p. (real_of_int (fst p) / 1000000, real_of_int (snd p) / 1000000)),
      point_to_gcode_quantized =
        (\<lambda>g p. (round_to 1000 (real_of_int (fst p) / 1000000),
                 round_to 1000 (real_of_int (snd p) / 1000000))),
      gcode_to_point = (\<lambda>g v. (trunc_coord (fst v * 1000000), trunc_coord (snd v * 1000000))),
      last_pos = cur_pos,
      set_last_pos = (\<lambda>p g. g\<lparr>cur_pos := p\<rparr>),
      add_de_delayed = (\<lambda>d g. g\<lparr>de_delayed := de_delayed g + d\<rparr>),
      set_lift = (\<lambda>l g. g\<lparr>lift_z := l\<rparr>),
      extrude_to_xy = (\<lambda>p e c g. demo_move (fst p) (snd p) e g),
      extrude_to_xyz = (\<lambda>p e c g. demo_move (fst p) (fst (snd p)) e g),
      extrude_arc_to_xy = (\<lambda>p ij d e c g. demo_move (fst p) (snd p) e g),
      extrude_arc_to_xyz = (\<lambda>p ij d e c g. demo_move (fst p) (fst (snd p)) e g),
      set_speed_mm_s = (\<lambda>s c m g. (''G1 F '', g)),
      tag_wipe_start = ''WIPE_START'',
      tag_wipe_end = ''WIPE_END'',
      EPSILON = 1 / 10000\<rparr>"

definition demo_start :: demo_gen where
  "demo_start =
     \<lparr>is_extruder = True, position = (0, 0, 0), cur_pos = (0, 0), retracted = 0,
      de_delayed = 0, lift_z = 0\<rparr>"

definition demo_mill :: demo_gen where
  "demo_mill = demo_start\<lparr>is_extruder := False\<rparr>"

text \<open>
  A wipe state that caches the path from \<open>(0, 0)\<close> over \<open>(1, 0)\<close> to \<open>(1, 2)\<close>, in
  millimetres.
\<close>

definition cached_wipe :: Wipe where
  "cached_wipe =
     \<lparr>m_enabled = True, m_wipe_len_max = 2,
      m_path = [seg 0 0, seg 1000000 0, seg 1000000 2000000], m_offset = (0, 0)\<rparr>"

section \<open>Lengths\<close>

lemma arcs_nonnegD: "arcs_nonneg ops \<Longrightarrow> 0 \<le> arc_angle ops a b r"
  unfolding arcs_nonneg_def by blast

lemma squaredNorm_nonneg: "0 \<le> squaredNorm v"
  by (simp add: squaredNorm_def)

lemma segment_length_nonneg: "arcs_nonneg ops \<Longrightarrow> 0 \<le> segment_length ops a b"
  by (simp add: segment_length_def arcs_nonnegD norm_v_def squaredNorm_nonneg)

lemma polyline_length_nonneg: "arcs_nonneg ops \<Longrightarrow> 0 \<le> polyline_length ops prev ss"
  by (induction ss arbitrary: prev) (simp_all add: segment_length_nonneg)

lemma path_length_nonneg: "arcs_nonneg ops \<Longrightarrow> 0 \<le> path_length ops p"
  by (simp add: path_length_def polyline_length_nonneg split: list.split)

lemma total_length_nonneg: "arcs_nonneg ops \<Longrightarrow> 0 \<le> total_length ops ps"
  unfolding total_length_def by (rule sum_list_nonneg) (auto simp: path_length_nonneg)

lemma sqrt_100: "sqrt 100 = 10"
  by (rule real_sqrt_unique) simp_all

lemma arcs_nonneg_straight: "arcs_nonneg straight_ops"
  by (simp add: arcs_nonneg_def straight_ops_def)

section \<open>\<open>longer_than\<close>\<close>

lemma longer_than_segs_eq:
  assumes "arcs_nonneg ops"
  shows "(case longer_than_segs ops prev ss len of
            None \<Rightarrow> polyline_length ops prev ss > len
          | Some len' \<Rightarrow> len' = len - polyline_length ops prev ss)"
proof (induction ss arbitrary: prev len)
  case Nil
  then show ?case by simp
next
  case (Cons s ss)
  have b: "0 \<le> polyline_length ops s ss" using assms by (rule polyline_length_nonneg)
  show ?case
  proof (cases "len - segment_length ops prev s < 0")
    case True
    then show ?thesis using b by (simp add: Let_def)
  next
    case False
    then show ?thesis using Cons.IH[where prev=s and len="len - segment_length ops prev s"]
      by (auto simp add: Let_def split: option.splits)
  qed
qed

lemma longer_than_eq:
  assumes "arcs_nonneg ops"
  shows "longer_than ops paths len = (total_length ops paths > len)"
proof (induction paths arbitrary: len)
  case Nil
  then show ?case by (simp add: total_length_def)
next
  case (Cons p ps)
  have b: "0 \<le> total_length ops ps" using assms by (rule total_length_nonneg)
  show ?case
  proof (cases "polyline p")
    case Nil
    then show ?thesis by (simp add: Cons.IH total_length_def path_length_def)
  next
    case c: (Cons s ss)
    show ?thesis
    proof (cases "longer_than_segs ops s ss len")
      case None
      then have "polyline_length ops s ss > len"
        using longer_than_segs_eq[OF assms, where prev=s and ss=ss and len=len] by simp
      then show ?thesis using b c None by (simp add: total_length_def path_length_def)
    next
      case (Some len')
      then have "len' = len - polyline_length ops s ss"
        using longer_than_segs_eq[OF assms, where prev=s and ss=ss and len=len] by simp
      then show ?thesis using c Some Cons.IH[of len']
        by (auto simp add: total_length_def path_length_def)
    qed
  qed
qed

text \<open>
  Claim C8. With arc angles that are not negative and no empty polyline,
  \<open>longer_than paths length\<close> is true exactly when the total length of the paths, the sum
  of the lengths of their segments, is greater than \<open>length\<close>; when the total length is
  equal to \<open>length\<close> the result is false.
\<close>

theorem longer_than_iff_total_length_exceeds:
  assumes "arcs_nonneg ops" and "nonempty_polylines paths"
  shows "longer_than ops paths len = (total_length ops paths > len)
         \<and> (total_length ops paths = len \<longrightarrow> \<not> longer_than ops paths len)"
  using longer_than_eq[OF assms(1), of paths len] by simp

theorem longer_than_iff_total_length_exceeds_witness:
  "arcs_nonneg straight_ops
   \<and> nonempty_polylines [extrusion [seg 0 0, seg 10 0]]
   \<and> total_length straight_ops [extrusion [seg 0 0, seg 10 0]] = 10
   \<and> \<not> longer_than straight_ops [extrusion [seg 0 0, seg 10 0]] 10
   \<and> longer_than straight_ops [extrusion [seg 0 0, seg 10 0]] 9"
proof -
  have a: "arcs_nonneg straight_ops" by (rule arcs_nonneg_straight)
  have n: "nonempty_polylines [extrusion [seg 0 0, seg 10 0]]"
    by (simp add: nonempty_polylines_def extrusion_def)
  have t: "total_length straight_ops [extrusion [seg 0 0, seg 10 0]] = 10"
    by (simp add: total_length_def path_length_def segment_length_def seg_def extrusion_def
          linear_seg_def norm_v_def squaredNorm_def cast_double_def psub_def sqrt_100)
  show ?thesis
    using a n t
      longer_than_iff_total_length_exceeds[OF a n, of 10]
      longer_than_iff_total_length_exceeds[OF a n, of 9]
    by simp
qed

section \<open>Sampling from the start\<close>

lemma sqr_less_sqrt: "0 \<le> d \<Longrightarrow> (l > sqr d) = (sqrt l > d)"
  unfolding sqr_def
  by (metis abs_of_nonneg real_sqrt_abs2 real_sqrt_less_iff)

lemma sample_start_segs_eq:
  assumes "arcs_nonneg ops"
  shows "0 \<le> d \<Longrightarrow> point a = prev \<Longrightarrow>
         (case sample_start_segs ops prev ss d of
            Inl pt \<Rightarrow> polyline_length ops a ss > d
          | Inr d' \<Rightarrow> 0 \<le> d' \<and> d' = d - polyline_length ops a ss)"
proof (induction ss arbitrary: prev d a)
  case Nil
  then show ?case by simp
next
  case (Cons s ss)
  have b: "0 \<le> polyline_length ops s ss" using assms by (rule polyline_length_nonneg)
  show ?case
  proof (cases "segment_length ops a s > d")
    case True
    then show ?thesis using b Cons.prems
      by (auto simp add: Let_def segment_length_def norm_v_def sqr_less_sqrt mult.commute)
  next
    case False
    then have d': "0 \<le> d - segment_length ops a s" by simp
    show ?thesis using False Cons.prems d' Cons.IH[OF d', where a=s and prev="point s"]
      by (auto simp add: Let_def segment_length_def norm_v_def sqr_less_sqrt mult.commute
               split: sum.splits)
  qed
qed

lemma sample_start_paths_eq:
  assumes "arcs_nonneg ops"
  shows "0 \<le> d \<Longrightarrow> (sample_start_paths ops paths d \<noteq> None) = (total_length ops paths > d)"
proof (induction paths arbitrary: d)
  case Nil
  then show ?case by (simp add: total_length_def)
next
  case (Cons p ps)
  have b: "0 \<le> total_length ops ps" using assms by (rule total_length_nonneg)
  show ?case
  proof (cases "polyline p")
    case Nil
    then show ?thesis using Cons by (simp add: total_length_def path_length_def)
  next
    case c: (Cons s ss)
    show ?thesis
    proof (cases "sample_start_segs ops (point s) ss d")
      case (Inl pt)
      then have "polyline_length ops s ss > d"
        using sample_start_segs_eq[OF assms Cons.prems, where a=s and prev="point s" and ss=ss]
        by simp
      then show ?thesis using b c Inl by (simp add: total_length_def path_length_def)
    next
      case (Inr d')
      then have "0 \<le> d' \<and> d' = d - polyline_length ops s ss"
        using sample_start_segs_eq[OF assms Cons.prems, where a=s and prev="point s" and ss=ss]
        by simp
      then show ?thesis using c Inr Cons.IH[of d']
        by (auto simp add: total_length_def path_length_def)
    qed
  qed
qed

lemma sample_start_some_iff:
  assumes "arcs_nonneg ops"
  shows "(sample_path_point_at_distance_from_start ops paths d \<noteq> None)
           = (0 \<le> d \<and> d < total_length ops paths)"
  using sample_start_paths_eq[OF assms, of d paths]
  by (simp add: sample_path_point_at_distance_from_start_def)

text \<open>
  Claim C10. With arc angles that are not negative and no empty polyline,
  \<open>sample_path_point_at_distance_from_start\<close> returns a point exactly when the distance
  is not negative and less than the total length of the paths: a negative distance gives
  no value, and so does a distance equal to the total length.
\<close>

theorem sample_from_start_returns_iff_in_range:
  assumes "arcs_nonneg ops" and "nonempty_polylines paths"
  shows "(\<exists>pt. sample_path_point_at_distance_from_start ops paths d = Some pt)
           = (0 \<le> d \<and> d < total_length ops paths)
         \<and> (d < 0 \<longrightarrow> sample_path_point_at_distance_from_start ops paths d = None)
         \<and> (d = total_length ops paths
              \<longrightarrow> sample_path_point_at_distance_from_start ops paths d = None)"
proof (cases "sample_path_point_at_distance_from_start ops paths d")
  case None
  then show ?thesis using sample_start_some_iff[OF assms(1), of paths d] by auto
next
  case (Some pt)
  then show ?thesis using sample_start_some_iff[OF assms(1), of paths d] by auto
qed

theorem sample_from_start_returns_iff_in_range_witness:
  "arcs_nonneg straight_ops
   \<and> nonempty_polylines [extrusion [seg 0 0, seg 10 0]]
   \<and> total_length straight_ops [extrusion [seg 0 0, seg 10 0]] = 10
   \<and> (\<exists>pt. sample_path_point_at_distance_from_start straight_ops
              [extrusion [seg 0 0, seg 10 0]] 9 = Some pt)
   \<and> sample_path_point_at_distance_from_start straight_ops
        [extrusion [seg 0 0, seg 10 0]] 10 = None
   \<and> sample_path_point_at_distance_from_start straight_ops
        [extrusion [seg 0 0, seg 10 0]] (- 1) = None"
proof -
  have a: "arcs_nonneg straight_ops" by (rule arcs_nonneg_straight)
  have n: "nonempty_polylines [extrusion [seg 0 0, seg 10 0]]"
    by (simp add: nonempty_polylines_def extrusion_def)
  have t: "total_length straight_ops [extrusion [seg 0 0, seg 10 0]] = 10"
    by (simp add: total_length_def path_length_def segment_length_def seg_def extrusion_def
          linear_seg_def norm_v_def squaredNorm_def cast_double_def psub_def sqrt_100)
  show ?thesis
    using a n t
      sample_from_start_returns_iff_in_range[OF a n, of 9]
      sample_from_start_returns_iff_in_range[OF a n, of 10]
      sample_from_start_returns_iff_in_range[OF a n, of "- 1"]
    by simp
qed

section \<open>Sampling from the end\<close>

lemma sample_end_segs_eq_start:
  "sample_end_segs ops prev ss d = sample_start_segs ops prev ss d"
  by (induction ss arbitrary: prev d) (simp_all add: Let_def)

lemma sample_end_paths_eq_start:
  "sample_end_paths ops paths d = sample_start_paths ops paths d"
  by (induction paths arbitrary: d) (simp_all add: sample_end_segs_eq_start split: list.split sum.split)

lemma sample_from_end_eq_from_start:
  "sample_path_point_at_distance_from_end ops paths d
     = sample_path_point_at_distance_from_start ops paths d"
  by (simp add: sample_path_point_at_distance_from_end_def
        sample_path_point_at_distance_from_start_def sample_end_paths_eq_start)

text \<open>
  Claim C5. \<open>sample_path_point_at_distance_from_end\<close> walks the paths and their
  segments from the start, as \<open>sample_path_point_at_distance_from_start\<close> does: on the
  path from \<open>(0, 0)\<close> over \<open>(10, 0)\<close> to \<open>(10, 10)\<close>, of length 20, the point at
  distance 4 from the end is \<open>(10, 6)\<close>, and the function returns \<open>(4, 0)\<close>, the point at
  distance 4 from the start.
\<close>

theorem sample_from_end_measures_from_start:
  "total_length straight_ops [extrusion [seg 0 0, seg 10 0, seg 10 10]] = 20
   \<and> sample_path_point_at_distance_from_end straight_ops
        [extrusion [seg 0 0, seg 10 0, seg 10 10]] 4 = Some (4, 0)
   \<and> sample_path_point_at_distance_from_end straight_ops
        [extrusion [seg 0 0, seg 10 0, seg 10 10]] 4 \<noteq> Some (10, 6)
   \<and> sample_path_point_at_distance_from_start straight_ops
        [extrusion [seg 0 0, seg 10 0, seg 10 10]] 4 = Some (4, 0)"
  by (simp add: sample_path_point_at_distance_from_end_def
        sample_path_point_at_distance_from_start_def
        total_length_def path_length_def segment_length_def norm_v_def
        seg_def extrusion_def linear_seg_def
        squaredNorm_def cast_double_def psub_def padd_def sqr_def sqrt_100 vscale_def
        cast_coord_t_def trunc_coord_def Let_def)

section \<open>A segment of length 10\<close>

lemma int_sq_100: "real_of_int x * real_of_int x = 100 \<Longrightarrow> x = 10 \<or> x = - 10"
proof -
  assume "real_of_int x * real_of_int x = 100"
  then have "real_of_int (x * x) = real_of_int 100" by simp
  then have "x * x = 100" by (simp only: of_int_eq_iff)
  then have "x\<^sup>2 = 10\<^sup>2" by (simp add: power2_eq_square)
  then show ?thesis by (simp only: power2_eq_iff) 
qed

text \<open>
  Claim C9, as amended. On a single straight segment of length 10 from \<open>a\<close> to
  \<open>a + v\<close>, \<open>sample_path_point_at_distance_from_start\<close> at distance 4 returns \<open>a\<close>
  plus the offset \<open>4 / 10 * v\<close> with each coordinate truncated toward zero to an integer,
  which is the point 4 units from the start when the segment is parallel to an axis; at
  distance 15 it returns no value.
\<close>

theorem sample_from_start_on_segment_of_length_10:
  assumes "squaredNorm (cast_double v) = 100"
  shows "sample_path_point_at_distance_from_start ops
           [\<lparr>polyline = [\<lparr>point = a, radius = r0, ccw = c0\<rparr>,
                          \<lparr>point = padd a v, radius = 0, ccw = c1\<rparr>], is_bridge = b\<rparr>] 4
           = Some (padd a (cast_coord_t (vscale (cast_double v) (4 / 10))))
         \<and> sample_path_point_at_distance_from_start ops
           [\<lparr>polyline = [\<lparr>point = a, radius = r0, ccw = c0\<rparr>,
                          \<lparr>point = padd a v, radius = 0, ccw = c1\<rparr>], is_bridge = b\<rparr>] 15
           = None
         \<and> (fst v = 0 \<or> snd v = 0 \<longrightarrow>
              norm_v (cast_double (cast_coord_t (vscale (cast_double v) (4 / 10)))) = 4)"
proof -
  have e: "psub (padd a v) a = v" by (simp add: psub_def padd_def)
  have x: "fst v = 0 \<or> snd v = 0 \<longrightarrow>
              norm_v (cast_double (cast_coord_t (vscale (cast_double v) (4 / 10)))) = 4"
  proof
    assume "fst v = 0 \<or> snd v = 0"
    then show "norm_v (cast_double (cast_coord_t (vscale (cast_double v) (4 / 10)))) = 4"
    proof
      assume z: "fst v = 0"
      then have "snd v = 10 \<or> snd v = - 10"
        using assms int_sq_100[of "snd v"] by (simp add: squaredNorm_def cast_double_def)
      then show ?thesis using z
        by (auto simp add: norm_v_def squaredNorm_def cast_double_def cast_coord_t_def
              vscale_def trunc_coord_def intro: real_sqrt_unique)
    next
      assume z: "snd v = 0"
      then have "fst v = 10 \<or> fst v = - 10"
        using assms int_sq_100[of "fst v"] by (simp add: squaredNorm_def cast_double_def)
      then show ?thesis using z
        by (auto simp add: norm_v_def squaredNorm_def cast_double_def cast_coord_t_def
              vscale_def trunc_coord_def intro: real_sqrt_unique)
    qed
  qed
  show ?thesis
    using assms x
    by (simp add: sample_path_point_at_distance_from_start_def linear_seg_def e sqr_def
          sqrt_100 Let_def)
qed

theorem sample_from_start_on_segment_of_length_10_witness:
  "squaredNorm (cast_double (10, 0)) = 100
   \<and> sample_path_point_at_distance_from_start straight_ops [extrusion [seg 0 0, seg 10 0]] 4
       = Some (4, 0)
   \<and> sample_path_point_at_distance_from_start straight_ops [extrusion [seg 0 0, seg 10 0]] 15
       = None
   \<and> norm_v (cast_double (psub (4, 0) (0, 0))) = 4"
proof -
  have h: "squaredNorm (cast_double (10, 0)) = 100"
    by (simp add: squaredNorm_def cast_double_def)
  have d: "norm_v (cast_double (psub (4, 0) (0, 0))) = 4"
    by (simp add: norm_v_def squaredNorm_def cast_double_def psub_def)
  show ?thesis
    using h d sample_from_start_on_segment_of_length_10[OF h, of straight_ops "(0, 0)" 0 True True False]
    by (simp add: seg_def extrusion_def padd_def cast_coord_t_def vscale_def cast_double_def
          trunc_coord_def)
qed

text \<open>
  Claim C9 as it is stated fails on the segment from \<open>(0, 0)\<close> to \<open>(6, 8)\<close>, of length
  10: the point returned at distance 4 is \<open>(2, 3)\<close>, whose distance from the start is not
  4 (the point 4 units along the segment, \<open>(2.4, 3.2)\<close>, has no integer coordinates).
\<close>

theorem sample_from_start_truncates_counterexample:
  "total_length straight_ops [extrusion [seg 0 0, seg 6 8]] = 10
   \<and> sample_path_point_at_distance_from_start straight_ops [extrusion [seg 0 0, seg 6 8]] 4
       = Some (2, 3)
   \<and> norm_v (cast_double (psub (2, 3) (0, 0))) \<noteq> 4"
proof -
  have "sqrt 13 \<noteq> 4"
  proof
    assume "sqrt 13 = 4"
    then have "(sqrt 13)\<^sup>2 = 4\<^sup>2" by (rule arg_cong)
    then show False by simp
  qed
  then show ?thesis
  by (simp add: sample_path_point_at_distance_from_start_def
        total_length_def path_length_def segment_length_def norm_v_def
        seg_def extrusion_def linear_seg_def
        squaredNorm_def cast_double_def psub_def padd_def sqr_def sqrt_100 vscale_def
        cast_coord_t_def trunc_coord_def Let_def)
qed


section \<open>\<open>wipe_hide_seam\<close>\<close>

lemma sqrt_10000: "sqrt 10000 = 100"
  by (rule real_sqrt_unique) simp_all

text \<open>
  With arc angles that are not negative, \<open>wipe_hide_seam\<close> returns no value on a loop
  whose total length is at most \<open>2.5 * wipe_length\<close>.
\<close>

lemma wipe_hide_seam_short:
  assumes "arcs_nonneg ops" and "total_length ops paths \<le> 2.5 * wl"
  shows "wipe_hide_seam ops paths is_hole wl = None"
  using assms(2) longer_than_eq[OF assms(1), of paths "2.5 * wl"]
  by (simp add: wipe_hide_seam_def)

text \<open>
  The angle is made monotonic by adding or subtracting a full turn, and the forward
  direction is then rotated by the whole angle: the winding has no effect on the result.
\<close>

lemma Rotation2D_plus_2pi: "Rotation2D (a + 2 * pi) v = Rotation2D a v"
  by (simp add: Rotation2D_def)

lemma Rotation2D_minus_2pi: "Rotation2D (a - 2 * pi) v = Rotation2D a v"
  using Rotation2D_plus_2pi[of "a - 2 * pi" v] by simp

lemma wipe_hide_seam_ignores_winding:
  "wipe_hide_seam ops paths True wl = wipe_hide_seam ops paths False wl"
  by (simp add: wipe_hide_seam_def Let_def Rotation2D_plus_2pi Rotation2D_minus_2pi
           split: option.split)

text \<open>
  On a closed loop, whose first point is its last point, the forward direction is the
  zero vector: the point sampled after the start of the loop is not taken as the next
  point, and every point that \<open>wipe_hide_seam\<close> returns is the closing vertex itself.
\<close>

lemma normalized_zero: "normalized (0, 0) = (0, 0)"
  by (simp add: normalized_def squaredNorm_def)

lemma wipe_hide_seam_closed_loop:
  assumes "first_point (hd paths) = last_point (last paths)"
    and "wipe_hide_seam ops paths is_hole wl = Some pt"
  shows "pt = last_point (last paths)"
proof -
  have z: "cast_double (psub (last_point (last paths)) (last_point (last paths))) = (0, 0)"
    by (simp add: cast_double_def psub_def)
  have o: "\<And>a. padd (last_point (last paths))
             (cast_coord_t (vscale (Rotation2D a (0, 0)) wl)) = last_point (last paths)"
    by (simp add: padd_def cast_coord_t_def vscale_def Rotation2D_def trunc_coord_def)
  show ?thesis
    using assms(2) unfolding wipe_hide_seam_def Let_def assms(1) z normalized_zero o
    by (auto split: if_splits option.splits)
qed

text \<open>
  Claim C7. \<open>wipe_hide_seam\<close> is to return, on a loop longer than
  \<open>2.5 * wipe_length\<close>, a point at distance \<open>wipe_length\<close> from the closing vertex, in
  the forward direction rotated by the interior angle. On the closed square loop of side
  10, of length 40, with a \<open>wipe_length\<close> of 1, it returns the closing vertex \<open>(0, 0)\<close>
  itself, at distance 0, for a contour and for a hole alike: no move is made. On the open
  loop over three sides of a square of side 100, the point taken as lying 10 before the
  end of the loop is \<open>(10, 0)\<close>, on the first segment, and not \<open>(10, 100)\<close>, on the last
  one, so that the angle is not measured between the last and the first segment.
\<close>

theorem wipe_hide_seam_makes_no_move_on_closed_loop:
  "total_length straight_ops square_loop = 40
   \<and> longer_than straight_ops square_loop (2.5 * 1)
   \<and> first_point (hd square_loop) = (0, 0)
   \<and> last_point (last square_loop) = (0, 0)
   \<and> wipe_hide_seam straight_ops square_loop False 1 = Some (0, 0)
   \<and> wipe_hide_seam straight_ops square_loop True 1 = Some (0, 0)
   \<and> norm_v (cast_double (psub (0, 0) (0, 0))) \<noteq> 1
   \<and> sample_path_point_at_distance_from_end straight_ops open_loop 10 = Some (10, 0)
   \<and> sample_path_point_at_distance_from_end straight_ops open_loop 10 \<noteq> Some (10, 100)"
  by (simp add: square_loop_def open_loop_def wipe_hide_seam_def
        sample_path_point_at_distance_from_end_def
        sample_path_point_at_distance_from_start_def
        total_length_def path_length_def segment_length_def norm_v_def
        seg_def extrusion_def linear_seg_def last_point_def first_point_def
        squaredNorm_def cast_double_def psub_def padd_def sqr_def sqrt_100 sqrt_10000 vscale_def
        cast_coord_t_def trunc_coord_def Let_def straight_ops_def normalized_def Rotation2D_def)


section \<open>\<open>Wipe::init\<close>\<close>

lemma init_loop_fold:
  "init_loop config mm ids acc = fold max (concat (map (extruder_candidates config mm) ids)) acc"
  by (induction ids arbitrary: acc) (simp_all add: extruder_candidates_def Let_def ac_simps)

lemma init_loop_budget:
  "init_loop config (length extruders > 1) extruders 0 = wipe_budget config extruders"
  unfolding wipe_budget_def wipe_candidates_def init_loop_fold
  by (simp only: Max.set_eq_fold)

lemma wipe_budget_nonneg: "0 \<le> wipe_budget config extruders"
  unfolding wipe_budget_def by (rule Max_ge) simp_all

lemma wipe_budget_is_max:
  assumes "\<exists>c \<in> set (wipe_candidates config extruders). 0 \<le> c"
  shows "wipe_budget config extruders = Max (set (wipe_candidates config extruders))"
proof -
  let ?C = "set (wipe_candidates config extruders)"
  have ne: "?C \<noteq> {}" using assms by auto
  have fin: "finite ?C" by simp
  obtain c where c: "c \<in> ?C" "0 \<le> c" using assms by blast
  have "c \<le> Max ?C" using fin c(1) by (rule Max_ge)
  then have z: "0 \<le> Max ?C" using c(2) by simp
  have "wipe_budget config extruders = max 0 (Max ?C)"
    unfolding wipe_budget_def using ne by (simp add: Max_insert)
  then show ?thesis using z by simp
qed

lemma reset_path_init: "reset_path (init config extruders w) = init config extruders w"
  by (simp add: init_def reset_path_def Let_def enable_def disable_def)

lemma set_path_disabled:
  "\<not> is_enabled w \<Longrightarrow> set_path gops paths reversed w = reset_path w"
  by (simp add: set_path_def Let_def is_enabled_def reset_path_def)

lemma wipe_no_path:
  "m_path w = [] \<Longrightarrow> wipe ops gops w g toolchange = ([], w, g)"
  by (simp add: wipe_def Let_def has_path_def reset_path_def)

text \<open>
  Claim C4. With ratios \<open>xy_to_e\<close> that are not zero, \<open>init\<close> computes the wipe budget:
  the maximum, from zero upwards, of \<open>retract_length / xy_to_e\<close> over the extruders that
  have the wipe enabled, and of \<open>retract_length_toolchange / xy_to_e\<close> as well when more
  than one extruder is active, which is the maximum of these candidates as soon as one of
  them is not negative. A budget that is not zero is stored and the wipe is enabled; with
  a budget of zero the wipe is disabled, and then \<open>set_path\<close> and \<open>wipe\<close> leave the
  state as it is and \<open>wipe\<close> returns the empty text. The cached path is empty after
  \<open>init\<close>, and whether the wipe is enabled does not depend on the state before.
\<close>

theorem init_budget:
  assumes "ratios_nonzero config extruders"
  shows "((\<exists>c \<in> set (wipe_candidates config extruders). 0 \<le> c) \<longrightarrow>
            wipe_budget config extruders = Max (set (wipe_candidates config extruders)))
       \<and> (wipe_budget config extruders \<noteq> 0 \<longrightarrow>
            is_enabled (init config extruders w)
          \<and> m_wipe_len_max (init config extruders w) = wipe_budget config extruders)
       \<and> (wipe_budget config extruders = 0 \<longrightarrow>
            \<not> is_enabled (init config extruders w)
          \<and> set_path gops paths reversed (init config extruders w) = init config extruders w
          \<and> wipe ops gops (set_path gops paths reversed (init config extruders w)) g toolchange
              = ([], init config extruders w, g))
       \<and> m_path (init config extruders w) = []
       \<and> is_enabled (init config extruders w) = is_enabled (init config extruders w2)"
proof -
  have en: "wipe_budget config extruders \<noteq> 0 \<longrightarrow>
            is_enabled (init config extruders w)
          \<and> m_wipe_len_max (init config extruders w) = wipe_budget config extruders"
    unfolding init_def Let_def init_loop_budget by (simp add: is_enabled_def enable_def)
  have p: "m_path (init config extruders w) = []"
    by (simp add: init_def Let_def reset_path_def enable_def disable_def)
  have dis: "wipe_budget config extruders = 0 \<longrightarrow> \<not> is_enabled (init config extruders w)"
    unfolding init_def Let_def init_loop_budget
    by (simp add: is_enabled_def disable_def reset_path_def)
  have sp: "wipe_budget config extruders = 0 \<longrightarrow>
              set_path gops paths reversed (init config extruders w) = init config extruders w"
    using dis by (simp add: set_path_disabled reset_path_init)
  have wp: "wipe_budget config extruders = 0 \<longrightarrow>
              wipe ops gops (set_path gops paths reversed (init config extruders w)) g toolchange
              = ([], init config extruders w, g)"
    using sp p by (simp add: wipe_no_path)
  have det: "is_enabled (init config extruders w) = is_enabled (init config extruders w2)"
    by (simp add: init_def Let_def is_enabled_def enable_def disable_def reset_path_def)
  show ?thesis using wipe_budget_is_max[of config extruders] en p dis sp wp det by blast
qed

theorem init_budget_witness:
  "ratios_nonzero two_extruders [0, 1]
   \<and> wipe_candidates two_extruders [0, 1] = [1, 5, 2, 5]
   \<and> wipe_budget two_extruders [0, 1] = 5
   \<and> is_enabled (init two_extruders [0, 1] fresh_wipe)
   \<and> m_wipe_len_max (init two_extruders [0, 1] fresh_wipe) = 5
   \<and> ratios_nonzero no_wipe [0, 1]
   \<and> wipe_budget no_wipe [0, 1] = 0
   \<and> \<not> is_enabled (init no_wipe [0, 1] fresh_wipe)"
proof -
  have r: "ratios_nonzero two_extruders [0, 1]"
    by (simp add: ratios_nonzero_def two_extruders_def)
  have c: "wipe_candidates two_extruders [0, 1] = [1, 5, 2, 5]"
    by (simp add: wipe_candidates_def extruder_candidates_def two_extruders_def)
  have b: "wipe_budget two_extruders [0, 1] = 5"
    unfolding wipe_budget_def c by simp
  have r0: "ratios_nonzero no_wipe [0, 1]"
    by (simp add: ratios_nonzero_def two_extruders_def no_wipe_def)
  have b0: "wipe_budget no_wipe [0, 1] = 0"
    by (simp add: wipe_budget_def wipe_candidates_def extruder_candidates_def no_wipe_def)
  show ?thesis
    using r c b r0 b0 init_budget[OF r, of fresh_wipe] init_budget[OF r0, of fresh_wipe]
    by auto
qed


section \<open>\<open>Wipe::set_path\<close>\<close>

lemma running_estimate_Cons:
  "running_estimate ops len (p # ps)
     = running_estimate ops (trunc_coord (real_of_int len + estimate_path_length ops (polyline p))) ps"
  by (simp add: running_estimate_def)

lemma accumulated_0: "accumulated reversed mp cands 0 = mp"
  by (simp add: accumulated_def)

lemma accumulated_Suc:
  "accumulated reversed mp (p # ps) (Suc k) = accumulated reversed (mp @ piece reversed p) ps k"
  by (simp add: accumulated_def)

lemma accepted_0:
  "accepted ops reversed mx len mp (p # ps) 0
     = (len < mx \<and> \<not> is_bridge p \<and> point (last mp) = adjoining_point reversed p)"
  by (simp add: accepted_def accumulated_def running_estimate_def)

lemma accepted_Suc:
  "accepted ops reversed mx len mp (p # ps) (Suc j)
     = accepted ops reversed mx
         (trunc_coord (real_of_int len + estimate_path_length ops (polyline p)))
         (mp @ piece reversed p) ps j"
  by (simp add: accepted_def accumulated_def running_estimate_def)

lemma set_path_forward_char:
  "\<exists>k \<le> length rest.
      set_path_forward ops mx len mp rest = accumulated False mp rest k
    \<and> (\<forall>j<k. accepted ops False mx len mp rest j)
    \<and> (k < length rest \<longrightarrow> \<not> accepted ops False mx len mp rest k)"
proof (induction rest arbitrary: len mp)
  case Nil
  then show ?case by (simp add: accumulated_def)
next
  case (Cons it rest)
  show ?case
  proof (cases "accepted ops False mx len mp (it # rest) 0")
    case False
    then have "set_path_forward ops mx len mp (it # rest) = mp"
      by (auto simp add: accepted_0 adjoining_point_def)
    then have "set_path_forward ops mx len mp (it # rest) = accumulated False mp (it # rest) 0
       \<and> (\<forall>j<0. accepted ops False mx len mp (it # rest) j)
       \<and> (0 < length (it # rest) \<longrightarrow> \<not> accepted ops False mx len mp (it # rest) 0)"
      using False by (simp add: accumulated_0)
    then show ?thesis by blast
  next
    case True
    let ?len = "trunc_coord (real_of_int len + estimate_path_length ops (polyline it))"
    let ?mp = "mp @ piece False it"
    have step: "set_path_forward ops mx len mp (it # rest) = set_path_forward ops mx ?len ?mp rest"
      using True by (simp add: accepted_0 adjoining_point_def piece_def)
    obtain k where k: "k \<le> length rest"
        "set_path_forward ops mx ?len ?mp rest = accumulated False ?mp rest k"
        "\<forall>j<k. accepted ops False mx ?len ?mp rest j"
        "k < length rest \<longrightarrow> \<not> accepted ops False mx ?len ?mp rest k"
      using Cons.IH[of ?len ?mp] by blast
    have a: "\<forall>j<Suc k. accepted ops False mx len mp (it # rest) j"
    proof (intro allI impI)
      fix j assume "j < Suc k"
      then show "accepted ops False mx len mp (it # rest) j"
        using True k(3) by (cases j) (simp_all add: accepted_Suc)
    qed
    have "Suc k \<le> length (it # rest)
       \<and> set_path_forward ops mx len mp (it # rest) = accumulated False mp (it # rest) (Suc k)
       \<and> (\<forall>j<Suc k. accepted ops False mx len mp (it # rest) j)
       \<and> (Suc k < length (it # rest) \<longrightarrow> \<not> accepted ops False mx len mp (it # rest) (Suc k))"
      using k a step by (simp add: accumulated_Suc accepted_Suc)
    then show ?thesis by blast
  qed
qed

lemma set_path_reversed_char:
  "\<exists>k \<le> length rest.
      set_path_reversed ops mx len mp rest = accumulated True mp rest k
    \<and> (\<forall>j<k. accepted ops True mx len mp rest j)
    \<and> (k < length rest \<longrightarrow> \<not> accepted ops True mx len mp rest k)"
proof (induction rest arbitrary: len mp)
  case Nil
  then show ?case by (simp add: accumulated_def)
next
  case (Cons it rest)
  show ?case
  proof (cases "accepted ops True mx len mp (it # rest) 0")
    case False
    then have "set_path_reversed ops mx len mp (it # rest) = mp"
      by (auto simp add: accepted_0 adjoining_point_def)
    then have "set_path_reversed ops mx len mp (it # rest) = accumulated True mp (it # rest) 0
       \<and> (\<forall>j<0. accepted ops True mx len mp (it # rest) j)
       \<and> (0 < length (it # rest) \<longrightarrow> \<not> accepted ops True mx len mp (it # rest) 0)"
      using False by (simp add: accumulated_0)
    then show ?thesis by blast
  next
    case True
    let ?len = "trunc_coord (real_of_int len + estimate_path_length ops (polyline it))"
    let ?mp = "mp @ piece True it"
    have step: "set_path_reversed ops mx len mp (it # rest) = set_path_reversed ops mx ?len ?mp rest"
      using True by (simp add: accepted_0 adjoining_point_def piece_def)
    obtain k where k: "k \<le> length rest"
        "set_path_reversed ops mx ?len ?mp rest = accumulated True ?mp rest k"
        "\<forall>j<k. accepted ops True mx ?len ?mp rest j"
        "k < length rest \<longrightarrow> \<not> accepted ops True mx ?len ?mp rest k"
      using Cons.IH[of ?len ?mp] by blast
    have a: "\<forall>j<Suc k. accepted ops True mx len mp (it # rest) j"
    proof (intro allI impI)
      fix j assume "j < Suc k"
      then show "accepted ops True mx len mp (it # rest) j"
        using True k(3) by (cases j) (simp_all add: accepted_Suc)
    qed
    have "Suc k \<le> length (it # rest)
       \<and> set_path_reversed ops mx len mp (it # rest) = accumulated True mp (it # rest) (Suc k)
       \<and> (\<forall>j<Suc k. accepted ops True mx len mp (it # rest) j)
       \<and> (Suc k < length (it # rest) \<longrightarrow> \<not> accepted ops True mx len mp (it # rest) (Suc k))"
      using k a step by (simp add: accumulated_Suc accepted_Suc)
    then show ?thesis by blast
  qed
qed

lemma set_path_char:
  assumes "is_enabled w" and "paths \<noteq> []"
  shows "\<exists>k \<le> length (later_paths reversed paths).
      m_path (set_path ops paths reversed w)
        = accumulated reversed (first_piece ops reversed paths) (later_paths reversed paths) k
    \<and> (\<forall>j<k. accepted ops reversed (scaled ops (m_wipe_len_max w))
                 (trunc_coord (estimate_path_length ops (first_piece ops reversed paths)))
                 (first_piece ops reversed paths) (later_paths reversed paths) j)
    \<and> (k < length (later_paths reversed paths) \<longrightarrow>
          \<not> accepted ops reversed (scaled ops (m_wipe_len_max w))
                 (trunc_coord (estimate_path_length ops (first_piece ops reversed paths)))
                 (first_piece ops reversed paths) (later_paths reversed paths) k)"
proof (cases reversed)
  case True
  have "m_path (set_path ops paths True w)
          = set_path_reversed ops (scaled ops (m_wipe_len_max w))
              (trunc_coord (estimate_path_length ops (first_piece ops True paths)))
              (first_piece ops True paths) (later_paths True paths)"
    using assms
    by (simp add: set_path_def Let_def is_enabled_def reset_path_def first_piece_def later_paths_def)
  then show ?thesis using True
      set_path_reversed_char[of "later_paths True paths" ops "scaled ops (m_wipe_len_max w)"
        "trunc_coord (estimate_path_length ops (first_piece ops True paths))"
        "first_piece ops True paths"]
    by simp
next
  case False
  have "m_path (set_path ops paths False w)
          = set_path_forward ops (scaled ops (m_wipe_len_max w))
              (trunc_coord (estimate_path_length ops (first_piece ops False paths)))
              (first_piece ops False paths) (later_paths False paths)"
    using assms
    by (simp add: set_path_def Let_def is_enabled_def reset_path_def first_piece_def later_paths_def)
  then show ?thesis using False
      set_path_forward_char[of "later_paths False paths" ops "scaled ops (m_wipe_len_max w)"
        "trunc_coord (estimate_path_length ops (first_piece ops False paths))"
        "first_piece ops False paths"]
    by simp
qed


text \<open>
  Claim C6, as amended. For an enabled wipe state and a sequence of paths that is not
  empty, the path cached by \<open>set_path\<close> is the polyline of the first path (of the last
  path, reversed, when \<open>reversed\<close>) followed by the vertices of the first \<open>k\<close> candidate
  paths, for some \<open>k\<close>; none of these \<open>k\<close> candidates is a bridge, and the adjoining point
  of each coincided with the end of the path accumulated before it. Accumulation so
  stops at the first candidate that is a bridge or that does not adjoin. The path the
  accumulation starts from is cached whether it is a bridge or not.
\<close>

theorem set_path_skips_bridge_candidates:
  assumes "is_enabled w" and "paths \<noteq> []" and "nonempty_polylines paths"
    and "first_piece ops reversed paths \<noteq> []"
  shows "\<exists>k \<le> length (later_paths reversed paths).
      m_path (set_path ops paths reversed w)
        = accumulated reversed (first_piece ops reversed paths) (later_paths reversed paths) k
    \<and> (\<forall>j<k. \<not> is_bridge (later_paths reversed paths ! j)
             \<and> point (last (accumulated reversed (first_piece ops reversed paths)
                               (later_paths reversed paths) j))
                 = adjoining_point reversed (later_paths reversed paths ! j))"
  using set_path_char[OF assms(1) assms(2), of reversed ops]
  unfolding accepted_def by blast

theorem set_path_skips_bridge_candidates_witness:
  "is_enabled budget_1mm \<and> bridged_sides \<noteq> [] \<and> nonempty_polylines bridged_sides
   \<and> first_piece straight_ops False bridged_sides \<noteq> []
   \<and> m_path (set_path straight_ops bridged_sides False budget_1mm)
       = [seg 0 0, seg 10 0, seg 10 10]"
proof -
  have e: "is_enabled budget_1mm" by (simp add: is_enabled_def budget_1mm_def)
  have n: "bridged_sides \<noteq> []" by (simp add: bridged_sides_def)
  have p: "nonempty_polylines bridged_sides"
    by (simp add: bridged_sides_def nonempty_polylines_def extrusion_def bridge_def)
  have f: "first_piece straight_ops False bridged_sides \<noteq> []"
    by (simp add: first_piece_def bridged_sides_def extrusion_def)
  have m: "m_path (set_path straight_ops bridged_sides False budget_1mm)
       = [seg 0 0, seg 10 0, seg 10 10]"
    by (simp add: set_path_def Let_def is_enabled_def reset_path_def budget_1mm_def
          bridged_sides_def extrusion_def bridge_def straight_ops_def seg_def
          trunc_coord_def first_point_def)
  show ?thesis
    using e n p f m set_path_skips_bridge_candidates[OF e n p f] by simp
qed

text \<open>
  Claim C6 as it is stated fails when the path the accumulation starts from is a bridge:
  its polyline is cached.
\<close>

theorem set_path_caches_first_bridge_counterexample:
  "is_enabled budget_1mm
   \<and> is_bridge (bridge [seg 0 0, seg 100 0])
   \<and> m_path (set_path straight_ops [bridge [seg 0 0, seg 100 0]] False budget_1mm)
       = polyline (bridge [seg 0 0, seg 100 0])
   \<and> m_path (set_path straight_ops [bridge [seg 0 0, seg 100 0]] True budget_1mm)
       = rev (polyline (bridge [seg 0 0, seg 100 0]))
   \<and> polyline (bridge [seg 0 0, seg 100 0]) = [seg 0 0, seg 100 0]"
  by (simp add: set_path_def Let_def is_enabled_def reset_path_def budget_1mm_def
        bridge_def straight_ops_def)

text \<open>
  Claim C3, as amended. For an enabled wipe state and a sequence of paths that is not
  empty, the path cached by \<open>set_path\<close> is the whole polyline of the first path (of the
  last path, reversed, when \<open>reversed\<close>) followed by the vertices of the first \<open>k\<close>
  candidate paths, and every one of these candidates was appended while the running
  estimate of the length accumulated before it was below the scaled budget.
\<close>

theorem set_path_running_estimate_below_budget:
  assumes "is_enabled w" and "paths \<noteq> []" and "nonempty_polylines paths"
    and "first_piece ops reversed paths \<noteq> []"
  shows "\<exists>k \<le> length (later_paths reversed paths).
      m_path (set_path ops paths reversed w)
        = accumulated reversed (first_piece ops reversed paths) (later_paths reversed paths) k
    \<and> (\<forall>j<k. running_estimate ops
                 (trunc_coord (estimate_path_length ops (first_piece ops reversed paths)))
                 (take j (later_paths reversed paths))
               < scaled ops (m_wipe_len_max w))"
  using set_path_char[OF assms(1) assms(2), of reversed ops]
  unfolding accepted_def by blast

theorem set_path_running_estimate_below_budget_witness:
  "is_enabled budget_15 \<and> three_sides \<noteq> [] \<and> nonempty_polylines three_sides
   \<and> first_piece straight_ops True three_sides \<noteq> []
   \<and> scaled straight_ops (m_wipe_len_max budget_15) = 15
   \<and> m_path (set_path straight_ops three_sides True budget_15)
       = [seg 0 10, seg 10 10, seg 10 0]"
proof -
  have e: "is_enabled budget_15" by (simp add: is_enabled_def budget_15_def)
  have n: "three_sides \<noteq> []" by (simp add: three_sides_def)
  have p: "nonempty_polylines three_sides"
    by (simp add: three_sides_def nonempty_polylines_def extrusion_def)
  have f: "first_piece straight_ops True three_sides \<noteq> []"
    by (simp add: first_piece_def three_sides_def extrusion_def straight_ops_def)
  have s: "scaled straight_ops (m_wipe_len_max budget_15) = 15"
    by (simp add: straight_ops_def budget_15_def trunc_coord_def)
  have m: "m_path (set_path straight_ops three_sides True budget_15)
       = [seg 0 10, seg 10 10, seg 10 0]"
    by (simp add: set_path_def Let_def is_enabled_def reset_path_def budget_15_def
          three_sides_def extrusion_def straight_ops_def seg_def
          trunc_coord_def last_point_def)
  show ?thesis
    using e n p f s m set_path_running_estimate_below_budget[OF e n p f] by simp
qed

text \<open>
  Claim C3 as it is stated fails on a single path longer than the budget: the path is
  cached whole, with a length of 100 units under a budget of 10 units.
\<close>

theorem set_path_exceeds_budget_counterexample:
  "is_enabled small_budget \<and> straight_path \<noteq> []
   \<and> scaled straight_ops (m_wipe_len_max small_budget) = 10
   \<and> m_path (set_path straight_ops straight_path False small_budget) = [seg 0 0, seg 100 0]
   \<and> cached_length straight_ops (set_path straight_ops straight_path False small_budget) = 100
   \<and> \<not> cached_length straight_ops (set_path straight_ops straight_path False small_budget)
         \<le> real_of_int (scaled straight_ops (m_wipe_len_max small_budget))
   \<and> \<not> unscaled straight_ops
           (cached_length straight_ops (set_path straight_ops straight_path False small_budget))
         \<le> m_wipe_len_max small_budget"
proof -
  have m: "m_path (set_path straight_ops straight_path False small_budget) = [seg 0 0, seg 100 0]"
    by (simp add: set_path_def Let_def is_enabled_def reset_path_def small_budget_def
          straight_path_def extrusion_def straight_ops_def)
  have c: "cached_length straight_ops (set_path straight_ops straight_path False small_budget) = 100"
    unfolding cached_length_def m
    by (simp add: segment_length_def seg_def linear_seg_def norm_v_def squaredNorm_def
          cast_double_def psub_def sqrt_10000)
  have s: "scaled straight_ops (m_wipe_len_max small_budget) = 10"
    by (simp add: straight_ops_def small_budget_def trunc_coord_def)
  have u: "unscaled straight_ops 100 = 1 / 10000" by (simp add: straight_ops_def)
  have b: "m_wipe_len_max small_budget = 1 / 100000" by (simp add: small_budget_def)
  have e: "is_enabled small_budget" by (simp add: is_enabled_def small_budget_def)
  have n: "straight_path \<noteq> []" by (simp add: straight_path_def)
  have c2: "\<not> cached_length straight_ops (set_path straight_ops straight_path False small_budget)
         \<le> real_of_int (scaled straight_ops (m_wipe_len_max small_budget))"
    unfolding c s by simp
  have c3: "\<not> unscaled straight_ops
           (cached_length straight_ops (set_path straight_ops straight_path False small_budget))
         \<le> m_wipe_len_max small_budget"
    unfolding c u b by simp
  show ?thesis using e n s m c c2 c3 by blast
qed


section \<open>The retraction length during \<open>Wipe::wipe\<close>\<close>

lemma step_effect_same:
  "emitted st' = emitted st \<Longrightarrow> retract_length st' = retract_length st
     \<Longrightarrow> step_effect eps nn st st'"
  by (simp add: step_effect_def)

lemma linear_move_effect:
  assumes "dE = retract_length st \<or> (dE \<le> retract_length st - eps \<and> (nn \<longrightarrow> 0 \<le> dE))"
  shows "step_effect eps nn st (snd (snd (linear_move ops c p sl dE done st)))"
  using assms unfolding linear_move_def step_effect_def Let_def
  by (auto split: prod.splits)

lemma arc_move_effect:
  assumes "dE = retract_length st \<or> (dE \<le> retract_length st - eps \<and> (nn \<longrightarrow> 0 \<le> dE))"
  shows "step_effect eps nn st (snd (snd (arc_move ops c p ij d sl dE done st)))"
  using assms unfolding arc_move_def step_effect_def Let_def
  by (auto split: prod.splits)

lemma norm_v_nonneg: "0 \<le> norm_v v"
  by (simp add: norm_v_def squaredNorm_nonneg)

lemma quantize_e_nonnegD: "quantize_e_nonneg ops \<Longrightarrow> 0 \<le> x \<Longrightarrow> 0 \<le> quantize_e ops g x"
  unfolding quantize_e_nonneg_def by blast

lemma wipe_linear_effect:
  assumes "nn \<longrightarrow> quantize_e_nonneg ops \<and> 0 \<le> xy_to_e c"
  shows "step_effect (EPSILON ops) nn st (snd (snd (wipe_linear ops c prev p st)))"
proof -
  let ?sl = "norm_v (vsub (quantize ops (gen st) p) prev)"
  let ?dE = "quantize_e ops (gen st) (xy_to_e c * ?sl)"
  have nonneg: "nn \<longrightarrow> 0 \<le> ?dE"
    using assms by (auto intro!: quantize_e_nonnegD mult_nonneg_nonneg norm_v_nonneg)
  have whole: "\<And>q d. step_effect (EPSILON ops) nn st
                 (snd (snd (linear_move ops c q ?sl (retract_length st) d st)))"
    by (rule linear_move_effect) simp
  have part: "\<not> ?dE > retract_length st - EPSILON ops \<Longrightarrow>
                step_effect (EPSILON ops) nn st
                 (snd (snd (linear_move ops c (quantize ops (gen st) p) ?sl ?dE False st)))"
    using nonneg by (intro linear_move_effect) auto
  show ?thesis
    unfolding wipe_linear_def Let_def
    using whole part
    by (auto simp add: step_effect_same)
qed

lemma wipe_arc_effect:
  assumes "nn \<longrightarrow> quantize_e_nonneg ops \<and> 0 \<le> xy_to_e c \<and> arcs_nonneg gops"
  shows "step_effect (EPSILON ops) nn st (snd (snd (wipe_arc ops gops c prev p r d st)))"
proof -
  have lin: "step_effect (EPSILON ops) nn st (snd (snd (wipe_linear ops c prev p st)))"
    using assms by (intro wipe_linear_effect) simp
  let ?pq = "quantize ops (gen st) p"
  let ?sl = "arc_angle gops prev ?pq r * \<bar>r\<bar>"
  let ?dE = "quantize_e ops (gen st) (xy_to_e c * ?sl)"
  have nonneg: "nn \<longrightarrow> 0 \<le> ?dE"
    using assms by (auto intro!: quantize_e_nonnegD mult_nonneg_nonneg arcs_nonnegD)
  have whole: "\<And>q ij sl dn. step_effect (EPSILON ops) nn st
                 (snd (snd (arc_move ops c q ij d sl (retract_length st) dn st)))"
    by (rule arc_move_effect) simp
  have part: "\<And>ij. \<not> ?dE > retract_length st - EPSILON ops \<Longrightarrow>
                step_effect (EPSILON ops) nn st
                 (snd (snd (arc_move ops c ?pq ij d ?sl ?dE False st)))"
    using nonneg by (intro arc_move_effect) auto
  show ?thesis
    unfolding wipe_arc_def Let_def
    using whole part lin
    by (auto simp add: step_effect_same split: prod.splits)
qed


lemma remaining_snoc:
  "remaining r (es @ [d]) = remaining r es @ [r - sum_list es - d]"
  by (induction es arbitrary: r) (simp_all add: algebra_simps)

lemma budget_inv_step:
  assumes "budget_inv r0 nn st" and "0 \<le> eps" and "step_effect eps nn st st'"
  shows "budget_inv r0 nn st'"
  using assms unfolding budget_inv_def step_effect_def
  by (auto simp add: remaining_snoc)

lemma wipe_walk_budget_inv:
  assumes "0 \<le> EPSILON ops"
    and "nn \<longrightarrow> quantize_e_nonneg ops \<and> 0 \<le> xy_to_e c \<and> arcs_nonneg gops"
  shows "budget_inv r0 nn st
           \<Longrightarrow> budget_inv r0 nn (snd (wipe_walk ops gops c offset prev p path st))"
proof (induction path arbitrary: prev p st)
  case Nil
  then show ?case by simp
next
  case (Cons it rest)
  let ?p0 = "point_to_gcode ops (gen st) (padd (point it) offset)"
  let ?res = "if linear_seg it then wipe_linear ops c prev ?p0 st
              else wipe_arc ops gops c prev ?p0 (unscaled gops (radius it)) (ccw it) st"
  have eff: "step_effect (EPSILON ops) nn st (snd (snd ?res))"
    using assms(2) by (auto intro!: wipe_linear_effect wipe_arc_effect)
  have inv: "budget_inv r0 nn (snd (snd ?res))"
    using Cons.prems assms(1) eff by (rule budget_inv_step)
  obtain dn p1 st1 where r: "?res = (dn, p1, st1)" by (cases ?res)
  have inv1: "budget_inv r0 nn st1" using inv r by simp
  show ?case
  proof (cases dn)
    case True
    then show ?thesis using r inv1 by (simp add: Let_def)
  next
    case False
    then show ?thesis using r Cons.IH[OF inv1, of p1 p1] by (simp add: Let_def)
  qed
qed

lemma wipe_moves_budget_inv:
  assumes "0 \<le> EPSILON ops" and "0 \<le> r"
    and "nn \<longrightarrow> sane_extrusion ops gops g"
  shows "budget_inv r nn (wipe_moves ops gops w g r)"
proof -
  let ?eid = "tool_id ops g"
  let ?nd = "if ?eid < 0 then 0.4 else nozzle_diameter_at ops g ?eid"
  let ?lift = "if ?eid < 0 then 0 else wipe_lift_abs_value ops g ?eid ?nd"
  let ?c = "\<lparr>xy_to_e = calc_xy_to_e_ratio ops g ?eid,
             use_firmware_retract = use_firmware_retraction ops g,
             lift_per_mm = calc_xy_to_e_ratio ops g ?eid * ?lift / r,
             final_z = snd (snd (get_position ops g)) + ?lift\<rparr>"
  let ?st0 = "\<lparr>gcode = [], gen = g, retract_length = r,
               current_z = snd (snd (get_position ops g)), emitted = []\<rparr>"
  let ?prev = "point_to_gcode_quantized ops g (last_pos ops g)"
  have c: "nn \<longrightarrow> quantize_e_nonneg ops \<and> 0 \<le> xy_to_e ?c \<and> arcs_nonneg gops"
    using assms(3) by (simp add: sane_extrusion_def)
  have i0: "budget_inv r nn ?st0" using assms(2) by (simp add: budget_inv_def)
  obtain p st where ws: "wipe_walk ops gops ?c (m_offset w) ?prev ?prev (m_path w) ?st0 = (p, st)"
    by (cases "wipe_walk ops gops ?c (m_offset w) ?prev ?prev (m_path w) ?st0")
  have "budget_inv r nn (snd (wipe_walk ops gops ?c (m_offset w) ?prev ?prev (m_path w) ?st0))"
    using assms(1) c i0 by (rule wipe_walk_budget_inv)
  then have inv: "budget_inv r nn st" using ws by simp
  have "emitted (wipe_moves ops gops w g r) = emitted st
        \<and> retract_length (wipe_moves ops gops w g r) = retract_length st"
    unfolding wipe_moves_def Let_def ws by simp
  then show ?thesis using inv by (simp add: budget_inv_def)
qed

lemma remaining_le:
  "list_all (\<lambda>dE. 0 \<le> dE) es \<Longrightarrow> list_all (\<lambda>b. b \<le> r) (remaining r es)"
proof (induction es arbitrary: r)
  case Nil
  then show ?case by simp
next
  case (Cons d es)
  then have "list_all (\<lambda>b. b \<le> r - d) (remaining (r - d) es)" by simp
  then have "list_all (\<lambda>b. b \<le> r) (remaining (r - d) es)"
    using Cons.prems by (auto simp add: list_all_iff)
  then show ?case using Cons.prems by simp
qed

lemma remaining_sorted:
  "list_all (\<lambda>dE. 0 \<le> dE) es \<Longrightarrow> sorted_wrt (\<ge>) (r # remaining r es)"
proof (induction es arbitrary: r)
  case Nil
  then show ?case by simp
next
  case (Cons d es)
  have a: "sorted_wrt (\<ge>) ((r - d) # remaining (r - d) es)" using Cons by simp
  have b: "list_all (\<lambda>b. b \<le> r) (remaining r (d # es))"
    using Cons.prems by (rule remaining_le)
  show ?case using a b by (simp add: list_all_iff)
qed

text \<open>
  Claim C2. In the walk of one call of \<open>wipe\<close>, entered with a retraction length
  \<open>r > 0\<close> to go and with \<open>EPSILON\<close> not negative: the remaining retraction length is
  \<open>r\<close> minus the sum of the \<open>dE\<close> of the moves, the sum of the \<open>dE\<close> is at most \<open>r\<close>, and
  the remaining length is not negative at the end nor after any move. When
  \<open>quantize_e\<close> keeps values that are not negative so, and neither the ratio
  \<open>xy_to_e\<close> nor an arc angle is negative, no \<open>dE\<close> is negative and the remaining
  lengths after the moves only decrease.
\<close>

theorem wipe_retraction_budget:
  assumes "0 \<le> EPSILON ops" and "0 < r"
  shows "retract_length (wipe_moves ops gops w g r) = r - sum_list (emitted (wipe_moves ops gops w g r))
       \<and> sum_list (emitted (wipe_moves ops gops w g r)) \<le> r
       \<and> 0 \<le> retract_length (wipe_moves ops gops w g r)
       \<and> list_all (\<lambda>b. 0 \<le> b) (remaining r (emitted (wipe_moves ops gops w g r)))
       \<and> (sane_extrusion ops gops g \<longrightarrow>
            list_all (\<lambda>dE. 0 \<le> dE) (emitted (wipe_moves ops gops w g r))
          \<and> sorted_wrt (\<ge>) (r # remaining r (emitted (wipe_moves ops gops w g r))))"
proof -
  have r0: "0 \<le> r" using assms(2) by simp
  have i: "budget_inv r (sane_extrusion ops gops g) (wipe_moves ops gops w g r)"
    using assms(1) r0 by (rule wipe_moves_budget_inv) simp
  show ?thesis
    using i remaining_sorted[of "emitted (wipe_moves ops gops w g r)" r]
    unfolding budget_inv_def by auto
qed


section \<open>A run of \<open>Wipe::wipe\<close>\<close>

lemmas demo_simps =
  demo_ops_def demo_start_def demo_move_def round_to_def cached_wipe_def seg_def
  straight_ops_def linear_seg_def padd_def vsub_def vadd_def vscale_def norm_v_def
  squaredNorm_def trunc_coord_def wipe_retract_comment_def

lemma pw: "(10::real) powi (- 3) = 1 / 1000"
  by (simp add: power_int_minus field_simps)

lemma walk_demo:
  "wipe_moves demo_ops straight_ops cached_wipe demo_start 2
     = \<lparr>gcode = ''G1 G1 '',
        gen = demo_start\<lparr>position := (1, 1, 0), cur_pos := (1000000, 1000000), retracted := 2\<rparr>,
        retract_length = 0, current_z = 0, emitted = [1, 1]\<rparr>"
  by (simp add: wipe_moves_def wipe_linear_def linear_move_def Let_def pw demo_simps)


lemma quantize_e_nonneg_demo: "quantize_e_nonneg demo_ops"
  by (simp add: quantize_e_nonneg_def demo_ops_def round_to_def)

theorem wipe_retraction_budget_witness:
  "0 \<le> EPSILON demo_ops \<and> (0::real) < 2
   \<and> sane_extrusion demo_ops straight_ops demo_start
   \<and> emitted (wipe_moves demo_ops straight_ops cached_wipe demo_start 2) = [1, 1]
   \<and> remaining 2 (emitted (wipe_moves demo_ops straight_ops cached_wipe demo_start 2)) = [1, 0]
   \<and> retract_length (wipe_moves demo_ops straight_ops cached_wipe demo_start 2) = 0
   \<and> sum_list (emitted (wipe_moves demo_ops straight_ops cached_wipe demo_start 2)) \<le> 2"
proof -
  have e: "0 \<le> EPSILON demo_ops" by (simp add: demo_ops_def)
  have r: "(0::real) < 2" by simp
  have s: "sane_extrusion demo_ops straight_ops demo_start"
    using quantize_e_nonneg_demo arcs_nonneg_straight
    by (simp add: sane_extrusion_def demo_ops_def)
  have m: "emitted (wipe_moves demo_ops straight_ops cached_wipe demo_start 2) = [1, 1]"
    by (simp add: walk_demo)
  show ?thesis
    using e r s m wipe_retraction_budget[OF e r, of straight_ops cached_wipe demo_start]
    by simp
qed

section \<open>The cached path after \<open>Wipe::wipe\<close>\<close>

lemma wipe_not_extruder:
  "\<not> tool_is_extruder ops g \<Longrightarrow> wipe ops gops w g toolchange = ([], w, g)"
  by (simp add: wipe_def)

lemma wipe_extruder_clears:
  "tool_is_extruder ops g \<Longrightarrow> m_path (fst (snd (wipe ops gops w g toolchange))) = []"
  by (simp add: wipe_def Let_def reset_path_def split: prod.splits)

text \<open>
  Claim C1, as amended. When the active tool is an extruder, the cached path is empty
  after \<open>wipe\<close>, whichever branch was taken and whether text was produced or not. When
  the active tool is not an extruder, \<open>wipe\<close> returns the empty text and leaves the wipe
  state, with its cached path, and the generator as they are. In both cases a second
  call of \<open>wipe\<close> that follows the first with no \<open>set_path\<close> in between returns the
  empty text.
\<close>

theorem wipe_clears_path_of_extruder:
  "(tool_is_extruder ops g \<longrightarrow> m_path (fst (snd (wipe ops gops w g toolchange))) = [])
   \<and> (\<not> tool_is_extruder ops g \<longrightarrow> wipe ops gops w g toolchange = ([], w, g))
   \<and> fst (wipe ops gops (fst (snd (wipe ops gops w g toolchange)))
              (snd (snd (wipe ops gops w g toolchange))) toolchange2) = []"
proof (cases "tool_is_extruder ops g")
  case True
  then have "m_path (fst (snd (wipe ops gops w g toolchange))) = []"
    by (rule wipe_extruder_clears)
  then have "wipe ops gops (fst (snd (wipe ops gops w g toolchange)))
              (snd (snd (wipe ops gops w g toolchange))) toolchange2
             = ([], fst (snd (wipe ops gops w g toolchange)), snd (snd (wipe ops gops w g toolchange)))"
    by (rule wipe_no_path)
  then show ?thesis using True wipe_extruder_clears[OF True, of gops w toolchange] by simp
next
  case False
  then show ?thesis by (simp add: wipe_not_extruder)
qed

lemma wipe_demo:
  "wipe demo_ops straight_ops cached_wipe demo_start False
     = ('';WIPE_START'' @ [CHR 0x0A] @ ''G1 F G1 G1 ;WIPE_END'' @ [CHR 0x0A],
        cached_wipe\<lparr>m_path := []\<rparr>,
        demo_start\<lparr>position := (1, 1, 0), cur_pos := (1000000, 1000000), retracted := 2\<rparr>)"
proof -
  have e: "tool_is_extruder demo_ops demo_start" by (simp add: demo_ops_def demo_start_def)
  have t: "tool_retract_to_go demo_ops demo_start
             (case print_retract_length demo_ops demo_start of
                Some v \<Rightarrow> if v \<ge> 0 then v else tool_retract_length demo_ops demo_start
              | None \<Rightarrow> tool_retract_length demo_ops demo_start) = 2"
    by (simp add: demo_ops_def demo_start_def)
  have h: "has_path cached_wipe" by (simp add: has_path_def cached_wipe_def)
  show ?thesis
    unfolding wipe_def Let_def
    by (simp add: e t h walk_demo)
       (simp add: calc_wipe_speed_def reset_path_def demo_ops_def demo_start_def)
qed

theorem wipe_clears_path_of_extruder_witness:
  "tool_is_extruder demo_ops demo_start
   \<and> fst (wipe demo_ops straight_ops cached_wipe demo_start False)
       = '';WIPE_START'' @ [CHR 0x0A] @ ''G1 F G1 G1 ;WIPE_END'' @ [CHR 0x0A]
   \<and> m_path (fst (snd (wipe demo_ops straight_ops cached_wipe demo_start False))) = []
   \<and> fst (wipe demo_ops straight_ops
            (fst (snd (wipe demo_ops straight_ops cached_wipe demo_start False)))
            (snd (snd (wipe demo_ops straight_ops cached_wipe demo_start False))) False) = []
   \<and> \<not> tool_is_extruder demo_ops demo_mill
   \<and> wipe demo_ops straight_ops cached_wipe demo_mill False = ([], cached_wipe, demo_mill)"
proof -
  have e: "tool_is_extruder demo_ops demo_start" by (simp add: demo_ops_def demo_start_def)
  have m: "\<not> tool_is_extruder demo_ops demo_mill"
    by (simp add: demo_ops_def demo_mill_def demo_start_def)
  have f: "fst (wipe demo_ops straight_ops cached_wipe demo_start False)
             = '';WIPE_START'' @ [CHR 0x0A] @ ''G1 F G1 G1 ;WIPE_END'' @ [CHR 0x0A]"
    by (simp only: wipe_demo fst_conv)
  show ?thesis
    using e m f
      wipe_clears_path_of_extruder[of demo_ops demo_start straight_ops cached_wipe False False]
      wipe_clears_path_of_extruder[of demo_ops demo_mill straight_ops cached_wipe False False]
    by simp
qed

text \<open>
  Claim C1 as it is stated fails when the active tool is not an extruder: \<open>wipe\<close>
  returns before the cached path is reset, and the path is still cached afterwards.
\<close>

theorem wipe_keeps_path_without_extruder_counterexample:
  "\<not> tool_is_extruder demo_ops demo_mill
   \<and> m_path cached_wipe = [seg 0 0, seg 1000000 0, seg 1000000 2000000]
   \<and> m_path (fst (snd (wipe demo_ops straight_ops cached_wipe demo_mill False)))
       = [seg 0 0, seg 1000000 0, seg 1000000 2000000]
   \<and> m_path (fst (snd (wipe demo_ops straight_ops cached_wipe demo_mill False))) \<noteq> []"
  by (simp add: wipe_def demo_ops_def demo_mill_def demo_start_def cached_wipe_def)

end
